theory Spec2Isabelle
  imports Complex_Main "HOL-Library.AList" "HOL-Library.Sublist"
begin

section \<open>Python values\<close>

subsection \<open>Strings\<close>

text \<open>
  A Python \<open>str\<close> is a sequence of Unicode code points, so it is modelled as a list of
  code points (\<open>len\<close> is \<open>length\<close>). \<open>ascii\<close> embeds an ASCII literal. The
  character classes below are exact on ASCII and on the CJK ideographs (which are
  alphabetic, caseless and not digits); the tables of the source use no other characters.
  Python's own classes cover all of Unicode: a label with a digit or a cased letter of
  another script (a full-width digit, a Cyrillic letter) is outside the modelled alphabet.
\<close>

type_synonym pystr = "nat list"

definition ascii :: "string \<Rightarrow> pystr" where
  "ascii cs = map of_char cs"

definition is_digit :: "nat \<Rightarrow> bool" where
  "is_digit c = (48 \<le> c \<and> c \<le> 57)"

definition is_space :: "nat \<Rightarrow> bool" where
  "is_space c =
     ((9 \<le> c \<and> c \<le> 13) \<or> (28 \<le> c \<and> c \<le> 32) \<or> c = 133 \<or> c = 160 \<or> c = 5760
      \<or> (8192 \<le> c \<and> c \<le> 8202) \<or> c = 8232 \<or> c = 8233 \<or> c = 8239 \<or> c = 8287
      \<or> c = 12288)"

text \<open>\<open>s.strip()\<close>: whitespace removed at both ends.\<close>

definition strip :: "pystr \<Rightarrow> pystr" where
  "strip s = rev (dropWhile is_space (rev (dropWhile is_space s)))"

subsection \<open>Floats\<close>

text \<open>
  A Python \<open>float\<close> is an IEEE 754 binary64 value: a finite value (a rational, the sign
  of zero is not kept), an infinity or a NaN. \<open>dbl_round\<close> rounds a rational to the
  nearest binary64 value, ties to even: 53 significant bits, the least exponent that of
  the subnormals, and overflow to an infinity.
\<close>

datatype pyfloat = Fin rat | PInf | NInf | NaN

definition pow2 :: "int \<Rightarrow> rat" where
  "pow2 e = (if 0 \<le> e then 2 ^ nat e else 1 / 2 ^ nat (- e))"

definition round_half_even :: "rat \<Rightarrow> int" where
  "round_half_even q =
     (let f = \<lfloor>q\<rfloor>; r = q - of_int f
      in if r < 1 / 2 then f else if 1 / 2 < r then f + 1 else if even f then f else f + 1)"

function bit_length :: "int \<Rightarrow> int" where
  "bit_length n = (if n \<le> 0 then 0 else 1 + bit_length (n div 2))"
  by pat_completeness auto
termination
  by (relation "measure nat") auto

declare bit_length.simps [simp del]

text \<open>\<open>floor_log2 q\<close> is the \<open>k\<close> with \<open>2^k \<le> q < 2^(k+1)\<close>, for a positive \<open>q\<close>.\<close>

definition floor_log2 :: "rat \<Rightarrow> int" where
  "floor_log2 q =
     (let (n, d) = quotient_of q;
          k = bit_length n - bit_length d
      in if pow2 k \<le> q then k else k - 1)"

definition dbl_round :: "rat \<Rightarrow> pyfloat" where
  "dbl_round q =
     (if q = 0 then Fin 0
      else let e = max (floor_log2 \<bar>q\<bar> - 52) (- 1074);
               m = round_half_even (q / pow2 e)
           in if 1024 < bit_length \<bar>m\<bar> + e then (if 0 < m then PInf else NInf)
              else Fin (of_int m * pow2 e))"

text \<open>Comparison of floats: every comparison with a NaN is false.\<close>

fun fle :: "pyfloat \<Rightarrow> pyfloat \<Rightarrow> bool" where
  "fle NaN _ = False"
| "fle _ NaN = False"
| "fle NInf _ = True"
| "fle _ PInf = True"
| "fle (Fin x) (Fin y) = (x \<le> y)"
| "fle (Fin x) NInf = False"
| "fle PInf (Fin y) = False"
| "fle PInf NInf = False"

subsection \<open>\<open>float(s)\<close> of a string\<close>

text \<open>
  \<open>float(s)\<close> strips whitespace, then reads an optional sign and either \<open>inf\<close>,
  \<open>infinity\<close> or \<open>nan\<close> (in any case), or a decimal number: digits (single
  underscores allowed between digits), an optional fraction, an optional exponent. The
  value is the binary64 value nearest to the decimal one. \<open>None\<close> is \<open>ValueError\<close>.
\<close>

fun digitpart :: "pystr \<Rightarrow> pystr \<times> pystr" where
  "digitpart [] = ([], [])"
| "digitpart (c # cs) =
     (if \<not> is_digit c then ([], c # cs)
      else case cs of
             u # d # r \<Rightarrow>
               if u = 95 \<and> is_digit d then (let (ds, rest) = digitpart (d # r) in (c # ds, rest))
               else (let (ds, rest) = digitpart cs in (c # ds, rest))
           | _ \<Rightarrow> (let (ds, rest) = digitpart cs in (c # ds, rest)))"

definition digits_value :: "pystr \<Rightarrow> int" where
  "digits_value ds = foldl (\<lambda>a d. 10 * a + (int d - 48)) 0 ds"

definition lower :: "pystr \<Rightarrow> pystr" where
  "lower s = map (\<lambda>c. if 65 \<le> c \<and> c \<le> 90 then c + 32 else c) s"

definition pow10 :: "int \<Rightarrow> rat" where
  "pow10 e = (if 0 \<le> e then 10 ^ nat e else 1 / 10 ^ nat (- e))"

text \<open>The exponent part: empty, or \<open>e\<close>/\<open>E\<close>, an optional sign and digits.\<close>

definition exponent_of :: "pystr \<Rightarrow> int option" where
  "exponent_of s =
     (case s of
        [] \<Rightarrow> Some 0
      | c # cs \<Rightarrow>
          if c = 101 \<or> c = 69 then
            (let (neg, cs') = (case cs of
                                 [] \<Rightarrow> (False, [])
                               | g # r \<Rightarrow> if g = 45 then (True, r)
                                          else if g = 43 then (False, r) else (False, cs));
                 (ds, rest) = digitpart cs'
             in if ds = [] \<or> rest \<noteq> [] then None
                else Some (if neg then - digits_value ds else digits_value ds))
          else None)"

text \<open>The unsigned decimal number, as an exact rational.\<close>

definition decimal_of :: "pystr \<Rightarrow> rat option" where
  "decimal_of s =
     (let (ip, r1) = digitpart s;
          (fp, r2) = (case r1 of
                        [] \<Rightarrow> ([], r1)
                      | c # cs \<Rightarrow> if c = 46 then digitpart cs else ([], r1))
      in if ip = [] \<and> fp = [] then None
         else case exponent_of r2 of
                None \<Rightarrow> None
              | Some e \<Rightarrow>
                  Some ((of_int (digits_value ip)
                         + of_int (digits_value fp) / 10 ^ length fp) * pow10 e))"

definition py_float :: "pystr \<Rightarrow> pyfloat option" where
  "py_float s =
     (let t = strip s;
          (neg, u) = (case t of
                        [] \<Rightarrow> (False, [])
                      | g # r \<Rightarrow> if g = 45 then (True, r)
                                 else if g = 43 then (False, r) else (False, t));
          l = lower u
      in if l = ascii ''inf'' \<or> l = ascii ''infinity'' then Some (if neg then NInf else PInf)
         else if l = ascii ''nan'' then Some NaN
         else case decimal_of u of
                None \<Rightarrow> None
              | Some q \<Rightarrow> Some (dbl_round (if neg then - q else q)))"

section \<open>category\_filter.py: the category filter\<close>

text \<open>
  \<open>categories_flat\<close> is the dictionary \<open>{id: {name, slug, parent}}\<close>. The parent of
  a root is \<open>0\<close>; a \<open>null\<close> parent is \<open>None\<close>.
\<close>

record category =
  cat_name :: pystr
  cat_slug :: pystr
  cat_parent :: "int option"

type_synonym categories = "int \<rightharpoonup> category"

definition WOMEN_MAX_SIZE :: pyfloat where
  "WOMEN_MAX_SIZE = Fin 39"

definition MEN_MIN_SIZE :: pyfloat where
  "MEN_MIN_SIZE = Fin (79 / 2)"

definition MEN_PARENT_ID :: int where
  "MEN_PARENT_ID = 101"

definition WOMEN_PARENT_ID :: int where
  "WOMEN_PARENT_ID = 102"

definition ONE_SIZE_CATEGORIES :: "int set" where
  "ONE_SIZE_CATEGORIES = {119, 123, 124, 125, 131, 132, 133, 1182, 1183}"

text \<open>
  \<open>is_child_of\<close> recurses on the parent, and nothing in it bounds the recursion: no
  depth counter, no set of visited ids. The only bound is the interpreter's: a call
  that would make the stack deeper than \<open>sys.getrecursionlimit()\<close> (1000 unless changed)
  raises \<open>RecursionError\<close>. The first argument of the model is that bound as seen from
  the caller: the number of nested calls of \<open>is_child_of\<close> the interpreter still
  allows (the recursion limit minus the depth of the stack at the outermost call).
  The body makes no other call that needs a frame: the dictionary is keyed by \<open>int\<close>.
\<close>

datatype walk_error = RecursionError

text \<open>
  A \<open>null\<close> parent differs from \<open>parent_id\<close> and from \<open>0\<close>, and is no key of the
  dictionary: the recursive call on it returns \<open>False\<close>, if the stack has room for it.
\<close>

fun is_child_of :: "nat \<Rightarrow> categories \<Rightarrow> int \<Rightarrow> int \<Rightarrow> walk_error + bool" where
  "is_child_of 0 categories_flat category_id parent_id = Inl RecursionError"
| "is_child_of (Suc depth) categories_flat category_id parent_id =
     (case categories_flat category_id of
        None \<Rightarrow> Inr False
      | Some cat \<Rightarrow>
          if cat_parent cat = Some parent_id then Inr True
          else if cat_parent cat \<noteq> Some 0 then
            (case cat_parent cat of
               None \<Rightarrow> (if depth = 0 then Inl RecursionError else Inr False)
             | Some p \<Rightarrow> is_child_of depth categories_flat p parent_id)
          else Inr False)"

text \<open>
  \<open>a or b\<close> on walks that may raise: \<open>b\<close> is evaluated only if \<open>a\<close> is false, and an
  exception of \<open>a\<close> is the result.
\<close>

definition or_else :: "walk_error + bool \<Rightarrow> walk_error + bool \<Rightarrow> walk_error + bool" where
  "or_else a b = (case a of Inl e \<Rightarrow> Inl e | Inr True \<Rightarrow> Inr True | Inr False \<Rightarrow> b)"

definition is_shoe_category :: "nat \<Rightarrow> categories \<Rightarrow> int \<Rightarrow> walk_error + bool" where
  "is_shoe_category depth categories_flat category_id =
     or_else (is_child_of depth categories_flat category_id MEN_PARENT_ID)
       (or_else (is_child_of depth categories_flat category_id WOMEN_PARENT_ID)
          (Inr (category_id = MEN_PARENT_ID \<or> category_id = WOMEN_PARENT_ID)))"

definition is_one_size_category :: "int \<Rightarrow> bool" where
  "is_one_size_category category_id = (category_id \<in> ONE_SIZE_CATEGORIES)"

definition has_one_size_category :: "int list \<Rightarrow> bool" where
  "has_one_size_category category_ids = list_ex (\<lambda>cat_id. cat_id \<in> ONE_SIZE_CATEGORIES) category_ids"

text \<open>The loop of \<open>analyze_sizes\<close>, with the two flags as its state.\<close>

fun analyze_sizes_loop :: "pystr list \<Rightarrow> bool \<times> bool \<Rightarrow> bool \<times> bool" where
  "analyze_sizes_loop [] flags = flags"
| "analyze_sizes_loop (sz # sizes) (has_women, has_men) =
     (case py_float sz of
        None \<Rightarrow> analyze_sizes_loop sizes (has_women, has_men)
      | Some size_float \<Rightarrow>
          analyze_sizes_loop sizes
            (if fle size_float WOMEN_MAX_SIZE then True else has_women,
             if fle MEN_MIN_SIZE size_float then True else has_men))"

definition analyze_sizes :: "pystr list \<Rightarrow> bool \<times> bool" where
  "analyze_sizes sizes = analyze_sizes_loop sizes (False, False)"

text \<open>
  A map of categories whose parent links go down a rank: it has no cycle of parents.
\<close>

definition parent_links_decrease :: "categories \<Rightarrow> (int \<Rightarrow> nat) \<Rightarrow> bool" where
  "parent_links_decrease categories_flat rank =
     (\<forall>c cat p. categories_flat c = Some cat \<longrightarrow> cat_parent cat = Some p \<longrightarrow>
        p \<in> dom categories_flat \<longrightarrow> rank p < rank c)"

text \<open>
  A set of categories that the walk towards \<open>parent_id\<close> cannot leave: every member has
  a parent in the set, and that parent is neither \<open>parent_id\<close> nor \<open>0\<close>. In a
  dictionary (which is finite) such a set exists exactly around a cycle of parents.
\<close>

definition parent_cycle :: "categories \<Rightarrow> int \<Rightarrow> int set \<Rightarrow> bool" where
  "parent_cycle categories_flat parent_id cyc =
     (\<forall>c\<in>cyc. \<exists>cat q. categories_flat c = Some cat \<and> cat_parent cat = Some q
        \<and> q \<noteq> parent_id \<and> q \<noteq> 0 \<and> q \<in> cyc)"

text \<open>Two categories that are each other's parent.\<close>

definition cyclic_map :: categories where
  "cyclic_map =
     [1 \<mapsto> \<lparr>cat_name = ascii ''a'', cat_slug = ascii ''a'', cat_parent = Some 2\<rparr>,
      2 \<mapsto> \<lparr>cat_name = ascii ''b'', cat_slug = ascii ''b'', cat_parent = Some 1\<rparr>]"

text \<open>A single root category.\<close>

definition root_map :: categories where
  "root_map = [5 \<mapsto> \<lparr>cat_name = ascii ''r'', cat_slug = ascii ''r'', cat_parent = Some 0\<rparr>]"

text \<open>A shoe root and one child of it.\<close>

definition shoe_map :: categories where
  "shoe_map =
     [101 \<mapsto> \<lparr>cat_name = ascii ''shoes'', cat_slug = ascii ''shoes'', cat_parent = Some 0\<rparr>,
      103 \<mapsto> \<lparr>cat_name = ascii ''sneakers'', cat_slug = ascii ''sneakers'',
              cat_parent = Some 101\<rparr>]"

definition shoe_rank :: "int \<Rightarrow> nat" where
  "shoe_rank c = (if c = 103 then 1 else 0)"

text \<open>
  A chain without a cycle: the categories \<open>1, \<dots>, k\<close>, where \<open>1\<close> is a root and the
  parent of every other \<open>c\<close> is \<open>c - 1\<close>.
\<close>

definition chain_map :: "int \<Rightarrow> categories" where
  "chain_map k =
     (\<lambda>c. if 1 \<le> c \<and> c \<le> k
          then Some \<lparr>cat_name = ascii ''c'', cat_slug = ascii ''c'', cat_parent = Some (c - 1)\<rparr>
          else None)"

definition chain_rank :: "int \<Rightarrow> nat" where
  "chain_rank c = nat c"

section \<open>price\_calculator.py: the price calculator\<close>

subsection \<open>Numbers and their arithmetic\<close>

text \<open>
  A Python number is an \<open>int\<close> (unbounded) or a \<open>float\<close>. An operation either
  returns a value or raises an exception (\<open>ZeroDivisionError\<close>, \<open>OverflowError\<close>,
  \<open>SyntaxError\<close>, \<open>TypeError\<close>: all of them subclasses of \<open>Exception\<close>, which is
  all that \<open>calculate_price\<close> looks at). The third outcome, \<open>Unmodelled\<close>, marks an
  input that lies outside the fragment of Python this theory gives a meaning to; nothing
  is claimed about it.
\<close>

datatype pynum = PInt int | PFloat pyfloat

datatype 'a outcome = Returns 'a | Raises | Unmodelled

definition fneg :: "pyfloat \<Rightarrow> pyfloat" where
  "fneg a = (case a of Fin x \<Rightarrow> Fin (- x) | PInf \<Rightarrow> NInf | NInf \<Rightarrow> PInf | NaN \<Rightarrow> NaN)"

definition fadd :: "pyfloat \<Rightarrow> pyfloat \<Rightarrow> pyfloat" where
  "fadd a b =
     (case (a, b) of
        (NaN, _) \<Rightarrow> NaN
      | (_, NaN) \<Rightarrow> NaN
      | (Fin x, Fin y) \<Rightarrow> dbl_round (x + y)
      | (PInf, NInf) \<Rightarrow> NaN
      | (NInf, PInf) \<Rightarrow> NaN
      | (PInf, _) \<Rightarrow> PInf
      | (_, PInf) \<Rightarrow> PInf
      | (NInf, _) \<Rightarrow> NInf
      | (_, NInf) \<Rightarrow> NInf)"

definition fsub :: "pyfloat \<Rightarrow> pyfloat \<Rightarrow> pyfloat" where
  "fsub a b = fadd a (fneg b)"

text \<open>The sign of a float that is not a NaN: \<open>-1\<close>, \<open>0\<close> or \<open>1\<close>.\<close>

definition fsign :: "pyfloat \<Rightarrow> int" where
  "fsign a = (case a of Fin x \<Rightarrow> (if x < 0 then - 1 else if x = 0 then 0 else 1)
              | PInf \<Rightarrow> 1 | NInf \<Rightarrow> - 1 | NaN \<Rightarrow> 0)"

definition inf_of_sign :: "int \<Rightarrow> pyfloat" where
  "inf_of_sign s = (if s = 0 then NaN else if 0 < s then PInf else NInf)"

definition fmul :: "pyfloat \<Rightarrow> pyfloat \<Rightarrow> pyfloat" where
  "fmul a b =
     (case (a, b) of
        (NaN, _) \<Rightarrow> NaN
      | (_, NaN) \<Rightarrow> NaN
      | (Fin x, Fin y) \<Rightarrow> dbl_round (x * y)
      | _ \<Rightarrow> inf_of_sign (fsign a * fsign b))"

text \<open>\<open>fdiv\<close> is the quotient by a divisor that is not zero.\<close>

definition fdiv :: "pyfloat \<Rightarrow> pyfloat \<Rightarrow> pyfloat" where
  "fdiv a b =
     (case (a, b) of
        (NaN, _) \<Rightarrow> NaN
      | (_, NaN) \<Rightarrow> NaN
      | (Fin x, Fin y) \<Rightarrow> dbl_round (x / y)
      | (Fin x, _) \<Rightarrow> Fin 0
      | (_, Fin y) \<Rightarrow> inf_of_sign (fsign a * fsign b)
      | _ \<Rightarrow> NaN)"

text \<open>\<open>float(n)\<close> of an \<open>int\<close> raises \<open>OverflowError\<close> beyond the range of binary64.\<close>

definition to_float :: "pynum \<Rightarrow> pyfloat outcome" where
  "to_float v =
     (case v of
        PFloat f \<Rightarrow> Returns f
      | PInt n \<Rightarrow> (case dbl_round (of_int n) of Fin q \<Rightarrow> Returns (Fin q) | _ \<Rightarrow> Raises))"

definition float_op :: "(pyfloat \<Rightarrow> pyfloat \<Rightarrow> pyfloat) \<Rightarrow> pynum \<Rightarrow> pynum \<Rightarrow> pynum outcome" where
  "float_op f v w =
     (case to_float v of
        Returns a \<Rightarrow> (case to_float w of Returns b \<Rightarrow> Returns (PFloat (f a b)) | r \<Rightarrow> Raises)
      | r \<Rightarrow> Raises)"

definition py_add :: "pynum \<Rightarrow> pynum \<Rightarrow> pynum outcome" where
  "py_add v w = (case (v, w) of (PInt m, PInt n) \<Rightarrow> Returns (PInt (m + n)) | _ \<Rightarrow> float_op fadd v w)"

definition py_sub :: "pynum \<Rightarrow> pynum \<Rightarrow> pynum outcome" where
  "py_sub v w = (case (v, w) of (PInt m, PInt n) \<Rightarrow> Returns (PInt (m - n)) | _ \<Rightarrow> float_op fsub v w)"

definition py_mul :: "pynum \<Rightarrow> pynum \<Rightarrow> pynum outcome" where
  "py_mul v w = (case (v, w) of (PInt m, PInt n) \<Rightarrow> Returns (PInt (m * n)) | _ \<Rightarrow> float_op fmul v w)"

text \<open>
  True division: of two \<open>int\<close>s it is the correctly rounded quotient
  (\<open>OverflowError\<close> when that is out of range); a zero divisor raises
  \<open>ZeroDivisionError\<close>.
\<close>

definition py_truediv :: "pynum \<Rightarrow> pynum \<Rightarrow> pynum outcome" where
  "py_truediv v w =
     (case (v, w) of
        (PInt m, PInt n) \<Rightarrow>
          if n = 0 then Raises
          else (case dbl_round (of_int m / of_int n) of
                  Fin q \<Rightarrow> Returns (PFloat (Fin q))
                | _ \<Rightarrow> Raises)
      | _ \<Rightarrow>
          (case to_float v of
             Returns a \<Rightarrow>
               (case to_float w of
                  Returns b \<Rightarrow> if b = Fin 0 then Raises else Returns (PFloat (fdiv a b))
                | r \<Rightarrow> Raises)
           | r \<Rightarrow> Raises))"

definition py_neg :: "pynum \<Rightarrow> pynum" where
  "py_neg v = (case v of PInt n \<Rightarrow> PInt (- n) | PFloat f \<Rightarrow> PFloat (fneg f))"

text \<open>
  \<open>round(v, 2)\<close>: an \<open>int\<close> is returned as it is; a finite float is rounded to two
  decimals, half to even on its exact value, and the result is the nearest binary64
  value; infinities and NaN round to themselves.
\<close>

definition round_2 :: "pynum \<Rightarrow> pynum" where
  "round_2 v =
     (case v of
        PInt n \<Rightarrow> PInt n
      | PFloat (Fin q) \<Rightarrow> PFloat (dbl_round (of_int (round_half_even (q * 100)) / 100))
      | PFloat f \<Rightarrow> PFloat f)"

subsection \<open>\<open>eval\<close> on arithmetic formulas\<close>

text \<open>
  \<open>calculate_price\<close> passes the formula string to Python's \<open>eval\<close>, which evaluates any
  Python expression in the scope of the call. The model gives a meaning to this fragment:
  strings of at most 100 characters made of spaces, decimal literals (\<open>12\<close>, \<open>1.2\<close>),
  names, the operators \<open>+ - * /\<close> (binary, and \<open>+ -\<close> also unary) and parentheses,
  where every name is one of the numeric local variables of \<open>calculate_price\<close>:
  \<open>x\<close>, \<open>a\<close>, \<open>b\<close>, \<open>c\<close>, \<open>price_cny\<close>, \<open>category_id\<close>. Any other character or
  name, \<open>**\<close>, \<open>//\<close>, the empty tuple \<open>()\<close> and literals in another notation are
  \<open>Unmodelled\<close>.
\<close>

datatype token = TNum pynum | TName pystr | TPlus | TMinus | TStar | TSlash | TLParen | TRParen

definition is_name_start :: "nat \<Rightarrow> bool" where
  "is_name_start c = ((65 \<le> c \<and> c \<le> 90) \<or> (97 \<le> c \<and> c \<le> 122) \<or> c = 95)"

definition is_word_char :: "nat \<Rightarrow> bool" where
  "is_word_char c = (is_name_start c \<or> is_digit c \<or> c = 46)"

text \<open>
  A word is a maximal run of letters, digits, underscores and dots. It is a name (no dot
  in it), an integer literal (digits, without a leading zero unless it is \<open>0\<close>) or a
  float literal (digits, a dot, digits); any other word is outside the fragment.
\<close>

definition word_token :: "pystr \<Rightarrow> token option" where
  "word_token w =
     (case w of
        [] \<Rightarrow> None
      | c # cs \<Rightarrow>
          if is_name_start c then (if 46 \<in> set w then None else Some (TName w))
          else if is_digit c then
            (let ip = takeWhile is_digit w; r = dropWhile is_digit w
             in if r = [] then
                  (if c = 48 \<and> cs \<noteq> [] then None else Some (TNum (PInt (digits_value ip))))
                else if hd r = 46 \<and> tl r \<noteq> [] \<and> list_all is_digit (tl r) then
                  Some (TNum (PFloat (dbl_round
                    (of_int (digits_value ip) + of_int (digits_value (tl r)) / 10 ^ length (tl r)))))
                else None)
          else None)"

function tokenize :: "pystr \<Rightarrow> token list option" where
  "tokenize [] = Some []"
| "tokenize (c # cs) =
     (if c = 32 then tokenize cs
      else if is_word_char c then
        (case word_token (c # takeWhile is_word_char cs) of
           None \<Rightarrow> None
         | Some t \<Rightarrow> map_option ((#) t) (tokenize (dropWhile is_word_char cs)))
      else if c = 43 then map_option ((#) TPlus) (tokenize cs)
      else if c = 45 then map_option ((#) TMinus) (tokenize cs)
      else if c = 42 then
        (if cs \<noteq> [] \<and> hd cs = 42 then None else map_option ((#) TStar) (tokenize cs))
      else if c = 47 then
        (if cs \<noteq> [] \<and> hd cs = 47 then None else map_option ((#) TSlash) (tokenize cs))
      else if c = 40 then map_option ((#) TLParen) (tokenize cs)
      else if c = 41 then map_option ((#) TRParen) (tokenize cs)
      else None)"
  by pat_completeness auto
termination
  by (relation "measure length") (auto simp: less_Suc_eq_le length_dropWhile_le)

datatype expr =
    Lit pynum
  | Name pystr
  | UMinus expr
  | UPlus expr
  | Add expr expr
  | Sub expr expr
  | Mul expr expr
  | Div expr expr

text \<open>
  The parser keeps a stack of pending operators and a stack of finished operands. Python's
  grammar gives \<open>* /\<close> precedence over \<open>+ -\<close>, unary signs precedence over both, and
  makes the binary operators associate to the left.
\<close>

datatype pending = OAdd | OSub | OMul | ODiv | ONeg | OPos | OParen

fun prec :: "pending \<Rightarrow> nat" where
  "prec OParen = 0"
| "prec OAdd = 1"
| "prec OSub = 1"
| "prec OMul = 2"
| "prec ODiv = 2"
| "prec ONeg = 3"
| "prec OPos = 3"

fun apply_pending :: "pending \<Rightarrow> expr list \<Rightarrow> expr list option" where
  "apply_pending OAdd (r # l # es) = Some (Add l r # es)"
| "apply_pending OSub (r # l # es) = Some (Sub l r # es)"
| "apply_pending OMul (r # l # es) = Some (Mul l r # es)"
| "apply_pending ODiv (r # l # es) = Some (Div l r # es)"
| "apply_pending ONeg (e # es) = Some (UMinus e # es)"
| "apply_pending OPos (e # es) = Some (UPlus e # es)"
| "apply_pending _ _ = None"

text \<open>Apply the pending operators of precedence at least \<open>p\<close>, down to a parenthesis.\<close>

fun reduce_pending :: "nat \<Rightarrow> pending list \<Rightarrow> expr list \<Rightarrow> (pending list \<times> expr list) option" where
  "reduce_pending p [] es = Some ([], es)"
| "reduce_pending p (q # ops) es =
     (if p \<le> prec q then
        (case apply_pending q es of None \<Rightarrow> None | Some es' \<Rightarrow> reduce_pending p ops es')
      else Some (q # ops, es))"

datatype parsed = Parsed expr | SyntaxOrTypeError | OutsideFragment

text \<open>
  \<open>parse_tokens ts expect ops es\<close>: \<open>expect\<close> says that an operand must come next. An
  opening parenthesis after an operand is a call of a number, which raises
  \<open>TypeError\<close> (or the text is no expression at all); \<open>()\<close> is the empty tuple.
\<close>

fun parse_tokens :: "token list \<Rightarrow> bool \<Rightarrow> pending list \<Rightarrow> expr list \<Rightarrow> parsed" where
  "parse_tokens [] expect ops es =
     (if expect then SyntaxOrTypeError
      else case reduce_pending 1 ops es of
             Some ([], [e]) \<Rightarrow> Parsed e
           | _ \<Rightarrow> SyntaxOrTypeError)"
| "parse_tokens (TNum n # ts) expect ops es =
     (if expect then parse_tokens ts False ops (Lit n # es) else SyntaxOrTypeError)"
| "parse_tokens (TName s # ts) expect ops es =
     (if expect then parse_tokens ts False ops (Name s # es) else SyntaxOrTypeError)"
| "parse_tokens (TLParen # ts) expect ops es =
     (if expect then
        (if ts \<noteq> [] \<and> hd ts = TRParen then OutsideFragment
         else parse_tokens ts True (OParen # ops) es)
      else SyntaxOrTypeError)"
| "parse_tokens (TRParen # ts) expect ops es =
     (if expect then SyntaxOrTypeError
      else case reduce_pending 1 ops es of
             Some (OParen # ops', es') \<Rightarrow> parse_tokens ts False ops' es'
           | _ \<Rightarrow> SyntaxOrTypeError)"
| "parse_tokens (TPlus # ts) expect ops es =
     (if expect then parse_tokens ts True (OPos # ops) es
      else case reduce_pending 1 ops es of
             Some (ops', es') \<Rightarrow> parse_tokens ts True (OAdd # ops') es'
           | None \<Rightarrow> SyntaxOrTypeError)"
| "parse_tokens (TMinus # ts) expect ops es =
     (if expect then parse_tokens ts True (ONeg # ops) es
      else case reduce_pending 1 ops es of
             Some (ops', es') \<Rightarrow> parse_tokens ts True (OSub # ops') es'
           | None \<Rightarrow> SyntaxOrTypeError)"
| "parse_tokens (TStar # ts) expect ops es =
     (if expect then SyntaxOrTypeError
      else case reduce_pending 2 ops es of
             Some (ops', es') \<Rightarrow> parse_tokens ts True (OMul # ops') es'
           | None \<Rightarrow> SyntaxOrTypeError)"
| "parse_tokens (TSlash # ts) expect ops es =
     (if expect then SyntaxOrTypeError
      else case reduce_pending 2 ops es of
             Some (ops', es') \<Rightarrow> parse_tokens ts True (ODiv # ops') es'
           | None \<Rightarrow> SyntaxOrTypeError)"

text \<open>The evaluation of an expression in a scope, a dictionary from names to numbers.\<close>

definition bind_outcome :: "pynum outcome \<Rightarrow> pynum outcome \<Rightarrow> (pynum \<Rightarrow> pynum \<Rightarrow> pynum outcome) \<Rightarrow> pynum outcome" where
  "bind_outcome r1 r2 f =
     (case r1 of
        Returns v \<Rightarrow> (case r2 of Returns w \<Rightarrow> f v w | Raises \<Rightarrow> Raises | Unmodelled \<Rightarrow> Unmodelled)
      | Raises \<Rightarrow> Raises
      | Unmodelled \<Rightarrow> Unmodelled)"

fun eval_expr :: "(pystr \<rightharpoonup> pynum) \<Rightarrow> expr \<Rightarrow> pynum outcome" where
  "eval_expr scope (Lit n) = Returns n"
| "eval_expr scope (Name s) = (case scope s of Some v \<Rightarrow> Returns v | None \<Rightarrow> Unmodelled)"
| "eval_expr scope (UMinus e) =
     (case eval_expr scope e of Returns v \<Rightarrow> Returns (py_neg v) | r \<Rightarrow> r)"
| "eval_expr scope (UPlus e) = eval_expr scope e"
| "eval_expr scope (Add l r) = bind_outcome (eval_expr scope l) (eval_expr scope r) py_add"
| "eval_expr scope (Sub l r) = bind_outcome (eval_expr scope l) (eval_expr scope r) py_sub"
| "eval_expr scope (Mul l r) = bind_outcome (eval_expr scope l) (eval_expr scope r) py_mul"
| "eval_expr scope (Div l r) = bind_outcome (eval_expr scope l) (eval_expr scope r) py_truediv"

fun token_known :: "(pystr \<rightharpoonup> pynum) \<Rightarrow> token \<Rightarrow> bool" where
  "token_known scope (TName s) = (scope s \<noteq> None)"
| "token_known scope _ = True"

definition py_eval :: "(pystr \<rightharpoonup> pynum) \<Rightarrow> pystr \<Rightarrow> pynum outcome" where
  "py_eval scope formula_str =
     (if 100 < length formula_str then Unmodelled
      else case tokenize formula_str of
             None \<Rightarrow> Unmodelled
           | Some ts \<Rightarrow>
               if \<not> list_all (token_known scope) ts then Unmodelled
               else case parse_tokens ts True [] [] of
                      OutsideFragment \<Rightarrow> Unmodelled
                    | SyntaxOrTypeError \<Rightarrow> Raises
                    | Parsed e \<Rightarrow> eval_expr scope e)"

subsection \<open>The calculator\<close>

text \<open>
  The configuration: \<open>parameters\<close> (name to number), \<open>formulas\<close> (the string of a
  category id to the formulas of its delivery tiers) and \<open>default_formula\<close> (delivery
  tier to formula).
\<close>

record price_calculator =
  parameters :: "pystr \<rightharpoonup> pynum"
  formulas :: "pystr \<rightharpoonup> (pystr \<rightharpoonup> pystr)"
  default_formula :: "pystr \<rightharpoonup> pystr"

text \<open>\<open>str(n)\<close> of an \<open>int\<close>.\<close>

function str_nat :: "nat \<Rightarrow> pystr" where
  "str_nat n = (if n < 10 then [48 + n] else str_nat (n div 10) @ [48 + n mod 10])"
  by pat_completeness auto
termination
  by (relation "measure id") auto

declare str_nat.simps [simp del]

definition str_int :: "int \<Rightarrow> pystr" where
  "str_int n = (if n < 0 then 45 # str_nat (nat (- n)) else str_nat (nat n))"

text \<open>The two delivery tiers, \<open>21-26\<close> and \<open>10-14\<close> followed by the Russian for "days".\<close>

definition days_21_26 :: pystr where
  "days_21_26 = ascii ''21-26 '' @ [1076, 1085, 1077, 1081]"

definition days_10_14 :: pystr where
  "days_10_14 = ascii ''10-14 '' @ [1076, 1085, 1077, 1081]"

definition DELIVERY_OPTIONS :: "pystr list" where
  "DELIVERY_OPTIONS = [days_21_26, days_10_14]"

text \<open>\<open>_set_defaults\<close>: the configuration used when no file is loaded.\<close>

definition set_defaults :: price_calculator where
  "set_defaults =
     \<lparr>parameters = [ascii ''a'' \<mapsto> PInt 12, ascii ''b'' \<mapsto> PFloat (dbl_round (12 / 10)),
                    ascii ''c'' \<mapsto> PInt 6],
      formulas = Map.empty,
      default_formula = [days_21_26 \<mapsto> ascii ''(x * a + 400) * b'',
                         days_10_14 \<mapsto> ascii ''(x * a + 400) * b + 600'']\<rparr>"

definition get_formula :: "price_calculator \<Rightarrow> int \<Rightarrow> pystr \<Rightarrow> pystr" where
  "get_formula pc category_id delivery_days =
     (let category_key = str_int category_id;
          dflt = (case default_formula pc delivery_days of
                    Some f \<Rightarrow> f
                  | None \<Rightarrow> ascii ''(x * a + 400) * b'')
      in case formulas pc category_key of
           Some category_formulas \<Rightarrow>
             (case category_formulas delivery_days of Some f \<Rightarrow> f | None \<Rightarrow> dflt)
         | None \<Rightarrow> dflt)"

definition get_param :: "price_calculator \<Rightarrow> pystr \<Rightarrow> pynum \<Rightarrow> pynum" where
  "get_param pc k dflt = (case parameters pc k of Some v \<Rightarrow> v | None \<Rightarrow> dflt)"

text \<open>
  The base price as a caller hands it over. The parameter is annotated \<open>float\<close>; the
  callers pass the quotient of two numbers (a float), a literal (an \<open>int\<close>) or the
  \<open>price_cny\<close> column of a stored variant, a nullable \<open>DECIMAL\<close> column: a \<open>Decimal\<close>
  (here by its exact value) or \<open>None\<close>.
\<close>

datatype price_arg = PriceFloat pyfloat | PriceInt int | PriceDecimal rat | PriceNone

text \<open>
  \<open>float(price_cny)\<close>: the float itself; the nearest float of an \<open>int\<close>, or
  \<open>OverflowError\<close> if the \<open>int\<close> lies beyond the range of the floats; the nearest float
  of a \<open>Decimal\<close> (an infinity beyond the range, no exception); \<open>TypeError\<close> for
  \<open>None\<close>.
\<close>

definition float_of_price :: "price_arg \<Rightarrow> pyfloat outcome" where
  "float_of_price price_cny =
     (case price_cny of
        PriceFloat f \<Rightarrow> Returns f
      | PriceInt n \<Rightarrow> to_float (PInt n)
      | PriceDecimal q \<Rightarrow> Returns (dbl_round q)
      | PriceNone \<Rightarrow> Raises)"

text \<open>
  The numeric local variables of \<open>calculate_price\<close> at the call of \<open>eval\<close>, where \<open>x\<close>
  is the float that \<open>float(price_cny)\<close> returned. (The other names in scope, \<open>self\<close>,
  \<open>delivery_days\<close>, \<open>formula_str\<close>, the module's globals and the builtins, and
  \<open>price_cny\<close> when it is a \<open>Decimal\<close>, are not numbers: a formula using them is
  outside the fragment.)
\<close>

definition scope_of :: "price_calculator \<Rightarrow> price_arg \<Rightarrow> pyfloat \<Rightarrow> int \<Rightarrow> (pystr \<rightharpoonup> pynum)" where
  "scope_of pc price_cny x category_id =
     (let locals =
            [ascii ''category_id'' \<mapsto> PInt category_id,
             ascii ''x'' \<mapsto> PFloat x,
             ascii ''a'' \<mapsto> get_param pc (ascii ''a'') (PInt 12),
             ascii ''b'' \<mapsto> get_param pc (ascii ''b'') (PFloat (dbl_round (12 / 10))),
             ascii ''c'' \<mapsto> get_param pc (ascii ''c'') (PInt 6)]
      in case price_cny of
           PriceFloat f \<Rightarrow> locals(ascii ''price_cny'' \<mapsto> PFloat f)
         | PriceInt n \<Rightarrow> locals(ascii ''price_cny'' \<mapsto> PInt n)
         | _ \<Rightarrow> locals)"

text \<open>
  The fallback of the \<open>except\<close> branch: \<open>round(float(price_cny) * 2.5, 2)\<close>, where
  \<open>float(price_cny)\<close> is again \<open>x\<close>.
\<close>

definition fallback_price :: "pyfloat \<Rightarrow> pynum" where
  "fallback_price x = round_2 (PFloat (fmul x (Fin (5 / 2))))"

text \<open>
  \<open>calculate_price\<close>. The formula is looked up first; then \<open>x = float(price_cny)\<close> is
  computed, before the \<open>try\<close>: an exception of the conversion reaches the caller.
  Inside the \<open>try\<close>: \<open>eval\<close>, then the log line that formats the result with
  \<open>:.0f\<close> (this converts an \<open>int\<close> to a float and can raise \<open>OverflowError\<close>),
  then \<open>round\<close>; every exception raised there is replaced by the fallback. In the
  result, \<open>Raises\<close> is an exception that leaves \<open>calculate_price\<close>.
\<close>

definition calculate_price :: "price_calculator \<Rightarrow> price_arg \<Rightarrow> int \<Rightarrow> pystr \<Rightarrow> pynum outcome" where
  "calculate_price pc price_cny category_id delivery_days =
     (let formula_str = get_formula pc category_id delivery_days
      in case float_of_price price_cny of
           Unmodelled \<Rightarrow> Unmodelled
         | Raises \<Rightarrow> Raises
         | Returns x \<Rightarrow>
             (case py_eval (scope_of pc price_cny x category_id) formula_str of
                Unmodelled \<Rightarrow> Unmodelled
              | Raises \<Rightarrow> Returns (fallback_price x)
              | Returns price_rub \<Rightarrow>
                  (case to_float price_rub of
                     Returns f \<Rightarrow> Returns (round_2 price_rub)
                   | r \<Rightarrow> Returns (fallback_price x))))"

text \<open>The names an expression mentions, and the names among the tokens of a formula.\<close>

fun names_of :: "expr \<Rightarrow> pystr set" where
  "names_of (Lit n) = {}"
| "names_of (Name s) = {s}"
| "names_of (UMinus e) = names_of e"
| "names_of (UPlus e) = names_of e"
| "names_of (Add l r) = names_of l \<union> names_of r"
| "names_of (Sub l r) = names_of l \<union> names_of r"
| "names_of (Mul l r) = names_of l \<union> names_of r"
| "names_of (Div l r) = names_of l \<union> names_of r"

fun token_names :: "token \<Rightarrow> pystr set" where
  "token_names (TName s) = {s}"
| "token_names _ = {}"

definition formula_names :: "pystr \<Rightarrow> pystr set" where
  "formula_names formula_str =
     (case tokenize formula_str of None \<Rightarrow> {} | Some ts \<Rightarrow> (\<Union>t\<in>set ts. token_names t))"

text \<open>
  Two configurations that differ from the default one in the formula of the slow tier:
  one whose formula names the local variable \<open>category_id\<close>, one whose formula divides
  by zero.
\<close>

definition leaking_config :: price_calculator where
  "leaking_config = set_defaults\<lparr>default_formula := [days_21_26 \<mapsto> ascii ''x + category_id'']\<rparr>"

definition failing_config :: price_calculator where
  "failing_config = set_defaults\<lparr>default_formula := [days_21_26 \<mapsto> ascii ''x / 0'']\<rparr>"

section \<open>product\_processor.py: the product processor\<close>

subsection \<open>String operations\<close>

definition upper :: "pystr \<Rightarrow> pystr" where
  "upper s = map (\<lambda>c. if 97 \<le> c \<and> c \<le> 122 then c - 32 else c) s"

definition is_alpha_char :: "nat \<Rightarrow> bool" where
  "is_alpha_char c = ((65 \<le> c \<and> c \<le> 90) \<or> (97 \<le> c \<and> c \<le> 122) \<or> (19968 \<le> c \<and> c \<le> 40959))"

definition isalpha :: "pystr \<Rightarrow> bool" where
  "isalpha s = (s \<noteq> [] \<and> list_all is_alpha_char s)"

text \<open>\<open>any(char.isdigit() for char in s)\<close>.\<close>

definition any_digit :: "pystr \<Rightarrow> bool" where
  "any_digit s = list_ex is_digit s"

text \<open>\<open>s.encode('ascii')\<close> succeeds.\<close>

definition is_ascii :: "pystr \<Rightarrow> bool" where
  "is_ascii s = list_all (\<lambda>c. c < 128) s"

definition startswith :: "pystr \<Rightarrow> pystr \<Rightarrow> bool" where
  "startswith s pre = (take (length pre) s = pre)"

definition endswith :: "pystr \<Rightarrow> pystr \<Rightarrow> bool" where
  "endswith s suf = (length suf \<le> length s \<and> drop (length s - length suf) s = suf)"

text \<open>\<open>sub in s\<close>: \<open>sub\<close> occurs in \<open>s\<close> as a contiguous substring.\<close>

fun contains :: "pystr \<Rightarrow> pystr \<Rightarrow> bool" where
  "contains [] sub = (sub = [])"
| "contains (c # cs) sub = (startswith (c # cs) sub \<or> contains cs sub)"

text \<open>
  \<open>int(s)\<close> of a string: whitespace stripped, an optional sign, digits (single
  underscores allowed between digits). \<open>None\<close> is \<open>ValueError\<close>.
\<close>

definition py_int :: "pystr \<Rightarrow> int option" where
  "py_int s =
     (let t = strip s;
          (neg, u) = (case t of
                        [] \<Rightarrow> (False, [])
                      | g # r \<Rightarrow> if g = 45 then (True, r)
                                 else if g = 43 then (False, r) else (False, t));
          (ds, rest) = digitpart u
      in if ds = [] \<or> rest \<noteq> [] then None
         else Some (if neg then - digits_value ds else digits_value ds))"

text \<open>\<open>str(v)\<close> of a value that is an \<open>int\<close> or \<open>None\<close>.\<close>

definition str_opt_int :: "int option \<Rightarrow> pystr" where
  "str_opt_int v = (case v of None \<Rightarrow> ascii ''None'' | Some n \<Rightarrow> str_int n)"

subsection \<open>Tables of the source\<close>

definition VALID_CLOTHING_SIZES :: "pystr set" where
  "VALID_CLOTHING_SIZES =
     {ascii ''XXXS'', ascii ''XXS'', ascii ''XS'', ascii ''S'', ascii ''M'', ascii ''L'',
      ascii ''XL'', ascii ''XXL'', ascii ''XXXL'', ascii ''4XL'', ascii ''5XL'', ascii ''6XL'',
      ascii ''7XL''}"

text \<open>
  The names of a colour property: the Chinese word for colour (code points 39068, 33394),
  \<open>Color\<close>, \<open>color\<close>. The names of a size property: three Chinese words for size,
  \<open>Size\<close>, \<open>size\<close>.
\<close>

definition COLOR_NAMES :: "pystr list" where
  "COLOR_NAMES = [[39068, 33394], ascii ''Color'', ascii ''color'']"

definition SIZE_NAMES :: "pystr list" where
  "SIZE_NAMES = [[23610, 30721], [23610, 23544], ascii ''Size'', ascii ''size'', [30721]]"

text \<open>
  The shoe width markers of the first fallback (23485 is the Chinese character for wide,
  31364 the one for narrow), and those of the second fallback.
\<close>

definition width_indicators_level2 :: "pystr list" where
  "width_indicators_level2 =
     [ascii ''D'', ascii ''E'', ascii ''W'', ascii ''EE'', ascii ''EEE'', ascii ''2E'',
      ascii ''3E'', ascii ''4E'', ascii ''D'' @ [23485], ascii ''E'' @ [23485],
      ascii ''2E'' @ [23485], [23485], [31364]]"

definition width_indicators_any :: "pystr list" where
  "width_indicators_any =
     [ascii ''D'', ascii ''E'', ascii ''W'', ascii ''EE'', ascii ''EEE'', ascii ''2E'',
      ascii ''3E'', ascii ''4E'', ascii ''D'' @ [23485], ascii ''E'' @ [23485],
      ascii ''2E'' @ [23485]]"

definition possible_size_fields :: "pystr list" where
  "possible_size_fields =
     [ascii ''size'', ascii ''sizeValue'', ascii ''sizeName'', ascii ''sizeEu'', ascii ''sizeUs'',
      ascii ''sizeUk'']"

definition ONE_SIZE :: pystr where
  "ONE_SIZE = ascii ''ONE SIZE''"

subsection \<open>The raw product document\<close>

text \<open>
  The document is an untyped nested dictionary. The model fixes the shape that the code
  expects where it does not test it: identifiers, levels, statuses, trade types, delivery
  windows and prices are \<open>int\<close>s, names and values are strings, and \<open>None\<close> stands for
  a missing key. A price entry may carry further keys; it is never the empty dictionary.
\<close>

record sale_property =
  sp_propertyValueId :: "int option"
  sp_value :: pystr
  sp_name :: pystr
  sp_level :: int

record sku_property =
  p_level :: "int option"
  p_propertyValueId :: "int option"
  p_propertyValue :: "pystr option"

text \<open>\<open>timeDelivery_max\<close> is \<open>timeDelivery.max\<close>, missing when either key is.\<close>

record price_tier =
  tradeType :: "int option"
  timeDelivery_max :: "int option"
  price :: "int option"
  activePrice :: "int option"

text \<open>
  \<open>size_fields\<close> holds the SKU's own fields \<open>size\<close>, \<open>sizeValue\<close>, ...;
  \<open>price_prices\<close> is \<open>sku.price.prices\<close>, empty when missing.
\<close>

record sku =
  skuId :: "int option"
  properties :: "sku_property list"
  status :: "int option"
  logoUrl :: "pystr option"
  size_fields :: "pystr \<rightharpoonup> pystr"
  price_prices :: "price_tier list"

text \<open>
  \<open>title_fields\<close> are the values of the title fields that are present, in the order in
  which the code probes them (the top level, then \<open>detail\<close>, \<open>basicParam\<close>,
  \<open>detailModel\<close>); \<open>priceInfo_skus\<close> maps \<open>str(skuId)\<close> to the \<open>prices\<close> list of
  that SKU in \<open>priceInfo.skus\<close>. An entry of \<open>image.spuImage.images\<close> is an object
  with an optional \<open>url\<close>, or a string.
\<close>

datatype image_entry = ImageObject "pystr option" | ImageString pystr

record product_data =
  spuId :: "int option"
  detail_spuId :: "int option"
  title_fields :: "pystr list"
  detail_logoUrl :: "pystr option"
  spuImage_images :: "image_entry list"
  brandName :: "pystr option"
  articleNumber :: pystr
  categoryId :: "int option"
  categoryName :: pystr
  skus :: "sku list"
  saleProperties_list :: "sale_property list"
  priceInfo_skus :: "pystr \<rightharpoonup> price_tier list"

datatype size_type = Shoes | Clothing | Accessories

record variant =
  v_sku_id :: int
  v_size_eu :: pystr
  v_size_type :: size_type
  v_price_cny :: pyfloat
  v_price_rub :: pyfloat
  v_is_available :: bool
  v_stock_status :: int
  v_price_source :: pystr

record product =
  r_spu_id :: int
  r_title :: pystr
  r_brand :: pystr
  r_category :: pystr
  r_category_id :: "int option"
  r_article_number :: pystr
  r_main_image_url :: pystr
  r_images :: "pystr list"
  r_variants :: "variant list"
  r_is_active :: bool

subsection \<open>Title, brand and images\<close>

text \<open>\<open>re.sub(r'\s+', ' ', s)\<close>: every run of whitespace becomes one space.\<close>

fun collapse_from :: "bool \<Rightarrow> pystr \<Rightarrow> pystr" where
  "collapse_from in_run [] = []"
| "collapse_from in_run (c # cs) =
     (if is_space c then (if in_run then collapse_from True cs else 32 # collapse_from True cs)
      else c # collapse_from False cs)"

definition collapse_spaces :: "pystr \<Rightarrow> pystr" where
  "collapse_spaces s = collapse_from False s"

definition is_alnum_ascii :: "nat \<Rightarrow> bool" where
  "is_alnum_ascii c = ((65 \<le> c \<and> c \<le> 90) \<or> (97 \<le> c \<and> c \<le> 122) \<or> is_digit c)"

definition clean_title :: "pystr \<Rightarrow> pystr" where
  "clean_title title =
     (if title = [] then []
      else strip (collapse_spaces (filter (\<lambda>c. is_alnum_ascii c \<or> is_space c) title)))"

definition sanitize_brand_name :: "pystr \<Rightarrow> pystr" where
  "sanitize_brand_name brand =
     (if brand = [] then []
      else strip (collapse_spaces
             (filter (\<lambda>c. is_alnum_ascii c \<or> is_space c \<or> c = 45 \<or> c = 38) brand)))"

text \<open>The first non-empty string of a chain of \<open>or\<close>; empty when there is none.\<close>

definition first_truthy :: "pystr list \<Rightarrow> pystr" where
  "first_truthy xs = (case find (\<lambda>x. x \<noteq> []) xs of None \<Rightarrow> [] | Some x \<Rightarrow> x)"

text \<open>A reference SKU id counts as given when it is a non-empty string.\<close>

definition given :: "pystr option \<Rightarrow> bool" where
  "given reference_sku_id = (case reference_sku_id of None \<Rightarrow> False | Some r \<Rightarrow> r \<noteq> [])"

text \<open>\<open>str(reference_sku_id)\<close> of a reference SKU id that is given.\<close>

definition ref_string :: "pystr option \<Rightarrow> pystr" where
  "ref_string reference_sku_id = (case reference_sku_id of None \<Rightarrow> [] | Some r \<Rightarrow> r)"

definition logo_of :: "sku \<Rightarrow> pystr" where
  "logo_of sku = (case logoUrl sku of None \<Rightarrow> [] | Some u \<Rightarrow> u)"

text \<open>
  The logo: the first non-empty \<open>logoUrl\<close> among the SKUs whose id prints like the
  reference SKU id, else \<open>detail.logoUrl\<close>.
\<close>

definition find_logo_url :: "product_data \<Rightarrow> pystr option \<Rightarrow> pystr" where
  "find_logo_url product_data reference_sku_id =
     (let sku_logo =
            (if given reference_sku_id then
               (case find (\<lambda>sku. str_opt_int (skuId sku) = ref_string reference_sku_id
                                 \<and> logo_of sku \<noteq> [])
                          (skus product_data) of
                  None \<Rightarrow> []
                | Some sku \<Rightarrow> logo_of sku)
             else [])
      in if sku_logo \<noteq> [] then sku_logo
         else (case detail_logoUrl product_data of None \<Rightarrow> [] | Some u \<Rightarrow> u))"

text \<open>An object contributes its \<open>url\<close> when that is not empty, a string itself.\<close>

fun image_urls :: "image_entry list \<Rightarrow> pystr list" where
  "image_urls [] = []"
| "image_urls (ImageObject None # imgs) = image_urls imgs"
| "image_urls (ImageObject (Some img_url) # imgs) =
     (if img_url \<noteq> [] then img_url # image_urls imgs else image_urls imgs)"
| "image_urls (ImageString img # imgs) = img # image_urls imgs"

definition all_images_of :: "product_data \<Rightarrow> pystr option \<Rightarrow> pystr list" where
  "all_images_of product_data reference_sku_id =
     (let logo_url = find_logo_url product_data reference_sku_id;
          images = image_urls (spuImage_images product_data)
      in (if logo_url \<noteq> [] then [logo_url] else []) @ images)"

subsection \<open>Colour, size mapping and product type\<close>

text \<open>A value is truthy when it is present and not zero.\<close>

definition truthy :: "int option \<Rightarrow> bool" where
  "truthy v = (case v of None \<Rightarrow> False | Some n \<Rightarrow> n \<noteq> 0)"

text \<open>
  The colour of the reference SKU: the first SKU with that id, its first property of level
  1, the first sale property with the same value id; the value id is the primary colour
  only if that sale property is named as a colour.
\<close>

definition reference_color :: "sale_property list \<Rightarrow> sku list \<Rightarrow> int \<Rightarrow> int option" where
  "reference_color properties_list sku_list reference_sku_id_int =
     (case find (\<lambda>sku. skuId sku = Some reference_sku_id_int) sku_list of
        None \<Rightarrow> None
      | Some sku \<Rightarrow>
          (case find (\<lambda>prop. p_level prop = Some 1) (properties sku) of
             None \<Rightarrow> None
           | Some prop \<Rightarrow>
               (let prop_value_id = p_propertyValueId prop;
                    is_color =
                      (case find (\<lambda>sale_prop. sp_propertyValueId sale_prop = prop_value_id)
                                 properties_list of
                         None \<Rightarrow> False
                       | Some sale_prop \<Rightarrow> sp_name sale_prop \<in> set COLOR_NAMES)
                in if is_color then prop_value_id else None)))"

text \<open>
  The loop over \<open>saleProperties.list\<close>. Its state is the dictionary
  \<open>property_to_size\<close> (an association list in insertion order) and
  \<open>primary_color_id\<close>.
\<close>

fun scan_sale_properties ::
  "sale_property list \<Rightarrow> (int \<times> pystr) list \<times> int option \<Rightarrow> (int \<times> pystr) list \<times> int option" where
  "scan_sale_properties [] state = state"
| "scan_sale_properties (prop # props) (property_to_size, primary_color_id) =
     (let prop_id = sp_propertyValueId prop;
          prop_value = sp_value prop;
          prop_name = sp_name prop;
          level = sp_level prop;
          primary_color_id' =
            (if primary_color_id = None \<and> level = 1 \<and> prop_name \<in> set COLOR_NAMES then prop_id
             else primary_color_id);
          is_size = (level = 2 \<or> (level = 1 \<and> prop_name \<in> set SIZE_NAMES));
          property_to_size' =
            (case prop_id of
               Some i \<Rightarrow>
                 if i \<noteq> 0 \<and> prop_value \<noteq> [] \<and> is_size
                 then AList.update i prop_value property_to_size
                 else property_to_size
             | None \<Rightarrow> property_to_size)
      in scan_sale_properties props (property_to_size', primary_color_id'))"

text \<open>
  The loop over the size values that looks for a clothing size: it stops at the first one;
  a value with a digit makes the sizes valid.
\<close>

fun detect_size_type :: "pystr list \<Rightarrow> size_type \<times> bool \<Rightarrow> size_type \<times> bool" where
  "detect_size_type [] state = state"
| "detect_size_type (size_value # vs) (st, has_valid_sizes) =
     (if upper size_value \<in> VALID_CLOTHING_SIZES then (Clothing, True)
      else if any_digit size_value then detect_size_type vs (st, True)
      else detect_size_type vs (st, has_valid_sizes))"

text \<open>
  The product type and the size mapping that the SKU loop uses: accessories by category
  (the mapping is emptied), else by the size values.
\<close>

definition classify :: "int list option \<Rightarrow> (int \<times> pystr) list \<Rightarrow> size_type \<times> (int \<times> pystr) list" where
  "classify category_ids property_to_size =
     (if (case category_ids of None \<Rightarrow> False | Some ids \<Rightarrow> ids \<noteq> [] \<and> has_one_size_category ids)
      then (Accessories, [])
      else let (st, has_valid_sizes) = detect_size_type (map snd property_to_size) (Shoes, False)
           in if \<not> has_valid_sizes \<and> 0 < length property_to_size then (Accessories, [])
              else (st, property_to_size))"

subsection \<open>The size of a SKU\<close>

text \<open>
  In this part the empty string stands for a size that is not found: the code tests
  \<open>not size_eu\<close>, which holds of \<open>None\<close> and of the empty string alike.
\<close>

definition level_or_0 :: "sku_property \<Rightarrow> int" where
  "level_or_0 prop = (case p_level prop of None \<Rightarrow> 0 | Some l \<Rightarrow> l)"

fun size_from_mapping :: "(int \<times> pystr) list \<Rightarrow> sku_property list \<Rightarrow> pystr" where
  "size_from_mapping property_to_size [] = []"
| "size_from_mapping property_to_size (prop # props) =
     (case p_propertyValueId prop of
        None \<Rightarrow> size_from_mapping property_to_size props
      | Some prop_value_id \<Rightarrow>
          (case map_of property_to_size prop_value_id of
             Some sz \<Rightarrow>
               if level_or_0 prop = 1 \<or> level_or_0 prop = 2 then sz
               else size_from_mapping property_to_size props
           | None \<Rightarrow> size_from_mapping property_to_size props))"

definition is_width :: "pystr \<Rightarrow> bool" where
  "is_width prop_value_str =
     list_ex (\<lambda>indicator. contains prop_value_str indicator \<or> upper prop_value_str = indicator)
       width_indicators_level2"

text \<open>Fallback 1: the first value of level 2 that is no width marker.\<close>

fun size_from_level2 :: "sku_property list \<Rightarrow> pystr" where
  "size_from_level2 [] = []"
| "size_from_level2 (prop # props) =
     (if p_level prop = Some 2 then
        (case p_propertyValue prop of
           None \<Rightarrow> size_from_level2 props
         | Some prop_value \<Rightarrow>
             if prop_value = [] then size_from_level2 props
             else if is_width (strip prop_value) then size_from_level2 props
             else strip prop_value)
      else size_from_level2 props)"

text \<open>
  Fallback 2: the first value that is ASCII, at most 10 characters long, no width marker,
  not made of letters only and, for shoes, has a digit.
\<close>

fun size_from_any :: "size_type \<Rightarrow> sku_property list \<Rightarrow> pystr" where
  "size_from_any st [] = []"
| "size_from_any st (prop # props) =
     (case p_propertyValue prop of
        None \<Rightarrow> size_from_any st props
      | Some prop_value \<Rightarrow>
          (let prop_value_str = strip prop_value
           in if prop_value = [] then size_from_any st props
              else if \<not> is_ascii prop_value_str then size_from_any st props
              else if 10 < length prop_value_str then size_from_any st props
              else if upper prop_value_str \<in> set width_indicators_any
                      \<or> endswith (upper prop_value_str) [23485] then size_from_any st props
              else if isalpha prop_value_str then size_from_any st props
              else if st = Shoes \<and> \<not> any_digit prop_value_str then size_from_any st props
              else prop_value_str))"

text \<open>Fallback 3: the SKU's own size fields.\<close>

fun size_from_fields :: "size_type \<Rightarrow> (pystr \<rightharpoonup> pystr) \<Rightarrow> pystr list \<Rightarrow> pystr" where
  "size_from_fields st sku_fields [] = []"
| "size_from_fields st sku_fields (field # rest) =
     (case sku_fields field of
        None \<Rightarrow> size_from_fields st sku_fields rest
      | Some field_value \<Rightarrow>
          (let field_value_str = strip field_value
           in if field_value = [] then size_from_fields st sku_fields rest
              else if st = Shoes \<and> any_digit field_value_str then field_value_str
              else if st = Clothing \<and> upper field_value_str \<in> VALID_CLOTHING_SIZES
                   then field_value_str
              else size_from_fields st sku_fields rest))"

text \<open>
  Fallback 4 searches the SKU id for \<^verbatim>\<open>(\d{2}(?:\.\d)?)\D*$\<close>: the leftmost place
  with two digits, optionally a dot and a digit, and then no digit up to the end. The
  result is the group.
\<close>

fun size_suffix :: "pystr \<Rightarrow> pystr option" where
  "size_suffix [] = None"
| "size_suffix [c] = None"
| "size_suffix (c # d # r) =
     (if is_digit c \<and> is_digit d then
        (case r of
           dot # e # r' \<Rightarrow>
             if dot = 46 \<and> is_digit e \<and> \<not> any_digit r' then Some [c, d, dot, e]
             else if \<not> any_digit r then Some [c, d]
             else size_suffix (d # r)
         | _ \<Rightarrow> if \<not> any_digit r then Some [c, d] else size_suffix (d # r))
      else size_suffix (d # r))"

definition size_from_sku_id :: "int \<Rightarrow> pystr" where
  "size_from_sku_id sku_id =
     (case size_suffix (str_int sku_id) of
        None \<Rightarrow> []
      | Some potential_size \<Rightarrow>
          (case py_float potential_size of
             None \<Rightarrow> []
           | Some size_float \<Rightarrow>
               if fle (Fin 33) size_float \<and> fle size_float (Fin 50) then potential_size
               else []))"

definition resolve_size :: "size_type \<Rightarrow> (int \<times> pystr) list \<Rightarrow> sku \<Rightarrow> pystr" where
  "resolve_size st property_to_size sku =
     (let sku_id = (case skuId sku of None \<Rightarrow> 0 | Some i \<Rightarrow> i);
          s0 = size_from_mapping property_to_size (properties sku);
          s1 = (if s0 = [] then size_from_level2 (properties sku) else s0);
          s2 = (if s1 = [] \<and> properties sku \<noteq> [] then size_from_any st (properties sku) else s1);
          s3 = (if s2 = [] then size_from_fields st (size_fields sku) possible_size_fields else s2);
          s4 = (if s3 = [] \<and> st = Shoes then size_from_sku_id sku_id else s3)
      in s4)"

text \<open>\<open>40.0\<close> becomes \<open>40\<close>: a shoe size that is an integral float is printed as an \<open>int\<close>.\<close>

definition normalize_size :: "size_type \<Rightarrow> pystr \<Rightarrow> pystr" where
  "normalize_size st size_eu =
     (if st = Shoes \<and> size_eu \<noteq> ONE_SIZE then
        (case py_float size_eu of
           Some (Fin q) \<Rightarrow> if of_int \<lfloor>q\<rfloor> = q then str_int \<lfloor>q\<rfloor> else size_eu
         | _ \<Rightarrow> size_eu)
      else size_eu)"

subsection \<open>The price of a SKU\<close>

definition trade_type_or_0 :: "price_tier \<Rightarrow> int" where
  "trade_type_or_0 price_obj = (case tradeType price_obj of None \<Rightarrow> 0 | Some t \<Rightarrow> t)"

definition price_or_0 :: "price_tier \<Rightarrow> int" where
  "price_or_0 price_obj = (case price price_obj of None \<Rightarrow> 0 | Some v \<Rightarrow> v)"

definition is_fast :: "price_tier \<Rightarrow> bool" where
  "is_fast price_obj =
     ((case timeDelivery_max price_obj of None \<Rightarrow> 999 | Some m \<Rightarrow> m) \<le> 4
      \<and> trade_type_or_0 price_obj \<noteq> 95)"

text \<open>The first of several searches that finds an entry.\<close>

fun first_found :: "('a \<Rightarrow> bool) list \<Rightarrow> 'a list \<Rightarrow> 'a option" where
  "first_found [] xs = None"
| "first_found (P # Ps) xs = (case find P xs of Some x \<Rightarrow> Some x | None \<Rightarrow> first_found Ps xs)"

text \<open>
  The selection among the prices of \<open>priceInfo\<close>: a missing \<open>tradeType\<close> counts as 0 in
  all five searches.
\<close>

definition select_price_info :: "price_tier list \<Rightarrow> price_tier option" where
  "select_price_info prices_list =
     first_found
       [\<lambda>price_obj. trade_type_or_0 price_obj = 2 \<and> is_fast price_obj,
        \<lambda>price_obj. trade_type_or_0 price_obj = 12,
        \<lambda>price_obj. trade_type_or_0 price_obj = 0,
        \<lambda>price_obj. trade_type_or_0 price_obj = 8,
        \<lambda>price_obj. trade_type_or_0 price_obj = 11] prices_list"

text \<open>
  The selection among the prices of the SKU itself: a missing \<open>tradeType\<close> counts as 0 in
  the first search only.
\<close>

definition select_price_detail :: "price_tier list \<Rightarrow> price_tier option" where
  "select_price_detail prices_list =
     first_found
       [\<lambda>price_obj_item. trade_type_or_0 price_obj_item = 2 \<and> is_fast price_obj_item,
        \<lambda>price_obj_item. tradeType price_obj_item = Some 12,
        \<lambda>price_obj_item. tradeType price_obj_item = Some 0,
        \<lambda>price_obj_item. tradeType price_obj_item = Some 8,
        \<lambda>price_obj_item. tradeType price_obj_item = Some 11] prices_list"

text \<open>\<open>price_raw\<close> of the \<open>priceInfo\<close> path: \<open>activePrice\<close> if present and positive.\<close>

definition price_raw_of :: "price_tier \<Rightarrow> int" where
  "price_raw_of selected_price_obj =
     (case activePrice selected_price_obj of
        None \<Rightarrow> price_or_0 selected_price_obj
      | Some a \<Rightarrow> if a = 0 \<or> a \<le> 0 then price_or_0 selected_price_obj else a)"

text \<open>
  \<open>n / 100\<close> of an \<open>int\<close>: the nearest float, \<open>None\<close> when it raises
  \<open>OverflowError\<close>.
\<close>

definition div_100 :: "int \<Rightarrow> pyfloat option" where
  "div_100 n = (case dbl_round (of_int n / 100) of Fin q \<Rightarrow> Some (Fin q) | _ \<Rightarrow> None)"

text \<open>
  What the body of the SKU loop does with a SKU: it appends a variant, or skips the SKU
  (\<open>continue\<close>), or raises, which ends \<open>parse_product_detail\<close> with a processing error.
\<close>

datatype 'a sku_result = Emitted 'a | Skipped | Crashed

text \<open>
  The two price paths. \<open>Emitted None\<close> is a path that leaves \<open>price_cny\<close> unset.
\<close>

definition price_from_info :: "(pystr \<rightharpoonup> price_tier list) \<Rightarrow> int \<Rightarrow> (pyfloat \<times> pystr) option sku_result" where
  "price_from_info price_info_skus sku_id =
     (case price_info_skus (str_int sku_id) of
        None \<Rightarrow> Emitted None
      | Some prices_list \<Rightarrow>
          if prices_list = [] then Emitted None
          else (case select_price_info prices_list of
                  None \<Rightarrow> Skipped
                | Some selected_price_obj \<Rightarrow>
                    (let price_raw = price_raw_of selected_price_obj
                     in if 0 < price_raw then
                          (case div_100 price_raw of
                             None \<Rightarrow> Crashed
                           | Some price_cny \<Rightarrow> Emitted (Some (price_cny, ascii ''priceInfo'')))
                        else Emitted None)))"

definition price_from_detail :: "sku \<Rightarrow> (pyfloat \<times> pystr) option sku_result" where
  "price_from_detail sku =
     (let prices_list = price_prices sku
      in if prices_list = [] then Emitted None
         else (case select_price_detail prices_list of
                 None \<Rightarrow> Skipped
               | Some selected_price_obj \<Rightarrow>
                   (let detailed_price = price_or_0 selected_price_obj
                    in if 0 < detailed_price then
                         (case div_100 detailed_price of
                            None \<Rightarrow> Crashed
                          | Some price_cny \<Rightarrow>
                              Emitted (Some (price_cny,
                                ascii ''price.prices[] (type=''
                                  @ str_int (trade_type_or_0 selected_price_obj) @ ascii '')'')))
                       else Emitted None)))"

definition sku_price :: "(pystr \<rightharpoonup> price_tier list) \<Rightarrow> sku \<Rightarrow> int \<Rightarrow> (pyfloat \<times> pystr) option sku_result" where
  "sku_price price_info_skus sku sku_id =
     (case price_from_info price_info_skus sku_id of
        Skipped \<Rightarrow> Skipped
      | Crashed \<Rightarrow> Crashed
      | Emitted (Some (price_cny, price_source)) \<Rightarrow>
          if fle price_cny (Fin 0) then price_from_detail sku
          else Emitted (Some (price_cny, price_source))
      | Emitted None \<Rightarrow> price_from_detail sku)"

subsection \<open>The loop over the SKUs\<close>

text \<open>What the loop body reads besides the SKU and the flag \<open>found_one_size_variant\<close>.\<close>

record env =
  e_size_type :: size_type
  e_property_to_size :: "(int \<times> pystr) list"
  e_primary_color_id :: "int option"
  e_reference_sku_id :: "pystr option"
  e_price_info_skus :: "pystr \<rightharpoonup> price_tier list"
  e_price_formula :: "(pyfloat \<Rightarrow> pyfloat) option"

definition sku_id_of :: "sku \<Rightarrow> int" where
  "sku_id_of sku = (case skuId sku of None \<Rightarrow> 0 | Some i \<Rightarrow> i)"

text \<open>The SKU has a colour (its first property of level 1) other than the primary one.\<close>

definition other_color :: "int option \<Rightarrow> sku \<Rightarrow> bool" where
  "other_color primary_color_id sku =
     (case find (\<lambda>prop. p_level prop = Some 1) (properties sku) of
        None \<Rightarrow> False
      | Some prop \<Rightarrow>
          truthy (p_propertyValueId prop) \<and> p_propertyValueId prop \<noteq> primary_color_id)"

text \<open>
  The body of the loop after the filter by SKU or colour: the size, the check for a second
  \<open>ONE SIZE\<close>, the normalisation, the status, the price, and the variant.
\<close>

definition process_size :: "env \<Rightarrow> bool \<Rightarrow> sku \<Rightarrow> variant sku_result" where
  "process_size env found_one_size_variant sku =
     (let sku_id = sku_id_of sku;
          st = e_size_type env;
          found_size = resolve_size st (e_property_to_size env) sku
      in if found_size = [] \<and> st \<noteq> Accessories then Skipped
         else
           (let size_eu = (if found_size = [] then ONE_SIZE else found_size)
            in if st = Accessories \<and> size_eu = ONE_SIZE \<and> found_one_size_variant
                  \<and> \<not> given (e_reference_sku_id env) then Skipped
               else
                 (let size_eu = normalize_size st size_eu;
                      stock_status = (case status sku of None \<Rightarrow> 0 | Some v \<Rightarrow> v)
                  in if stock_status \<noteq> 1 then Skipped
                     else
                       (case sku_price (e_price_info_skus env) sku sku_id of
                          Skipped \<Rightarrow> Skipped
                        | Crashed \<Rightarrow> Crashed
                        | Emitted None \<Rightarrow> Skipped
                        | Emitted (Some (price_cny, price_source)) \<Rightarrow>
                            if fle price_cny (Fin 0) then Skipped
                            else Emitted
                              \<lparr>v_sku_id = sku_id,
                               v_size_eu = size_eu,
                               v_size_type = st,
                               v_price_cny = price_cny,
                               v_price_rub = (case e_price_formula env of
                                                None \<Rightarrow> price_cny
                                              | Some formula \<Rightarrow> formula price_cny),
                               v_is_available = True,
                               v_stock_status = stock_status,
                               v_price_source = price_source\<rparr>))))"

definition process_sku :: "env \<Rightarrow> bool \<Rightarrow> sku \<Rightarrow> variant sku_result" where
  "process_sku env found_one_size_variant sku =
     (let sku_id = sku_id_of sku;
          st = e_size_type env;
          reference_sku_id = e_reference_sku_id env
      in if st = Accessories \<and> given reference_sku_id then
           (if str_int sku_id \<noteq> ref_string reference_sku_id then Skipped
            else process_size env found_one_size_variant sku)
         else if st \<noteq> Accessories \<and> truthy (e_primary_color_id env)
                 \<and> other_color (e_primary_color_id env) sku then Skipped
         else process_size env found_one_size_variant sku)"

text \<open>
  The loop: its state is the list \<open>variants\<close> and the flag \<open>found_one_size_variant\<close>;
  \<open>None\<close> is an exception raised in the body.
\<close>

fun sku_loop :: "env \<Rightarrow> sku list \<Rightarrow> variant list \<Rightarrow> bool \<Rightarrow> variant list option" where
  "sku_loop env [] variants found_one_size_variant = Some variants"
| "sku_loop env (sku # rest) variants found_one_size_variant =
     (case process_sku env found_one_size_variant sku of
        Crashed \<Rightarrow> None
      | Skipped \<Rightarrow> sku_loop env rest variants found_one_size_variant
      | Emitted v \<Rightarrow>
          sku_loop env rest (variants @ [v])
            (if e_size_type env = Accessories \<and> v_size_eu v = ONE_SIZE
                \<and> \<not> given (e_reference_sku_id env)
             then True else found_one_size_variant))"

subsection \<open>\<open>parse_product_detail\<close>\<close>

text \<open>
  The primary colour before the sale properties are scanned: with a reference SKU id,
  \<open>int(reference_sku_id)\<close> is computed first and raises \<open>ValueError\<close> on a string
  that is no number (the outer \<open>None\<close>, a processing error).
\<close>

definition initial_color :: "product_data \<Rightarrow> pystr option \<Rightarrow> int option option" where
  "initial_color product_data reference_sku_id =
     (if given reference_sku_id then
        (case py_int (ref_string reference_sku_id) of
           None \<Rightarrow> None
         | Some reference_sku_id_int \<Rightarrow>
             Some (reference_color (saleProperties_list product_data) (skus product_data)
                     reference_sku_id_int))
      else Some None)"

text \<open>
  The environment of the SKU loop: the size mapping and primary colour from the sale
  properties, the product type from the categories and the size values.
\<close>

definition env_of ::
  "(pyfloat \<Rightarrow> pyfloat) option \<Rightarrow> product_data \<Rightarrow> pystr option \<Rightarrow> int list option \<Rightarrow> int option \<Rightarrow> env" where
  "env_of price_formula product_data reference_sku_id category_ids color0 =
     (let (property_to_size, primary_color_id) =
            scan_sale_properties (saleProperties_list product_data) ([], color0);
          (st, property_to_size') = classify category_ids property_to_size
      in \<lparr>e_size_type = st,
          e_property_to_size = property_to_size',
          e_primary_color_id = primary_color_id,
          e_reference_sku_id = reference_sku_id,
          e_price_info_skus = priceInfo_skus product_data,
          e_price_formula = price_formula\<rparr>)"

text \<open>
  \<open>parse_product_detail\<close> returns the record, or \<open>None\<close> after counting the reason
  with \<open>_log_invalid\<close>; every exception is caught and counted as a processing error.
  The model returns the record or the reason.
\<close>

datatype invalid_reason =
    No_spu_id
  | Empty_title
  | No_images
  | No_skus
  | No_valid_variants
  | Processing_error

text \<open>
  The log and the counters of processed and valid products are left out: no result depends
  on them. The sorted list of sizes computed at the end is only written to the log; the
  record carries \<open>variants\<close> as the loop built it.
\<close>

definition parse_product_detail ::
  "(pyfloat \<Rightarrow> pyfloat) option \<Rightarrow> product_data \<Rightarrow> pystr option \<Rightarrow> int list option
     \<Rightarrow> invalid_reason + product" where
  "parse_product_detail price_formula product_data reference_sku_id category_ids =
     (let spu_id = (if truthy (spuId product_data) then spuId product_data
                    else detail_spuId product_data);
          title0 = first_truthy (title_fields product_data);
          title = (if title0 \<noteq> [] then clean_title title0 else title0);
          all_images = all_images_of product_data reference_sku_id;
          brand = (case brandName product_data of None \<Rightarrow> [] | Some b \<Rightarrow> sanitize_brand_name b)
      in case spu_id of
           None \<Rightarrow> Inl No_spu_id
         | Some spu \<Rightarrow>
             if spu = 0 then Inl No_spu_id
             else if title = [] then Inl Empty_title
             else if all_images = [] then Inl No_images
             else
               (case initial_color product_data reference_sku_id of
                  None \<Rightarrow> Inl Processing_error
                | Some color0 \<Rightarrow>
                    if skus product_data = [] then Inl No_skus
                    else
                      (case sku_loop
                              (env_of price_formula product_data reference_sku_id category_ids color0)
                              (skus product_data) [] False of
                         None \<Rightarrow> Inl Processing_error
                       | Some variants \<Rightarrow>
                           if variants = [] then Inl No_valid_variants
                           else Inr
                             \<lparr>r_spu_id = spu,
                              r_title = title,
                              r_brand = brand,
                              r_category = categoryName product_data,
                              r_category_id = categoryId product_data,
                              r_article_number = articleNumber product_data,
                              r_main_image_url = (case all_images of [] \<Rightarrow> [] | u # _ \<Rightarrow> u),
                              r_images = all_images,
                              r_variants = variants,
                              r_is_active = True\<rparr>)))"

text \<open>
  The keys by which the sizes are sorted for the log line: for shoes the float of the
  label, 999 for a label that is no number; for clothing the rank of the label in the
  table of clothing sizes, 999 for a label outside it.
\<close>

definition safe_float_sort :: "pystr \<Rightarrow> pyfloat" where
  "safe_float_sort x = (case py_float x of None \<Rightarrow> Fin 999 | Some f \<Rightarrow> f)"

definition size_order :: "(pystr \<times> int) list" where
  "size_order =
     [(ascii ''XXXS'', 1), (ascii ''XXS'', 2), (ascii ''XS'', 3), (ascii ''S'', 4),
      (ascii ''M'', 5), (ascii ''L'', 6), (ascii ''XL'', 7), (ascii ''XXL'', 8),
      (ascii ''XXXL'', 9), (ascii ''4XL'', 10), (ascii ''5XL'', 11), (ascii ''6XL'', 12),
      (ascii ''7XL'', 13)]"

definition clothing_sort_key :: "pystr \<Rightarrow> int" where
  "clothing_sort_key x = (case map_of size_order (upper x) of None \<Rightarrow> 999 | Some k \<Rightarrow> k)"

subsection \<open>Example documents\<close>

definition tier :: "int \<Rightarrow> int option \<Rightarrow> int \<Rightarrow> int option \<Rightarrow> price_tier" where
  "tier trade_type delivery_max price_fen active_fen =
     \<lparr>tradeType = Some trade_type, timeDelivery_max = delivery_max, price = Some price_fen,
      activePrice = active_fen\<rparr>"

text \<open>An orderable SKU with one property of level 2 and prices of its own.\<close>

definition sized_sku :: "int \<Rightarrow> int \<Rightarrow> price_tier list \<Rightarrow> sku" where
  "sized_sku sku_id value_id prices_list =
     \<lparr>skuId = Some sku_id,
      properties = [\<lparr>p_level = Some 2, p_propertyValueId = Some value_id, p_propertyValue = None\<rparr>],
      status = Some 1, logoUrl = None, size_fields = Map.empty, price_prices = prices_list\<rparr>"

text \<open>An orderable SKU without properties.\<close>

definition bare_sku :: "int \<Rightarrow> price_tier list \<Rightarrow> sku" where
  "bare_sku sku_id prices_list =
     \<lparr>skuId = Some sku_id, properties = [], status = Some 1, logoUrl = None,
      size_fields = Map.empty, price_prices = prices_list\<rparr>"

definition size_property :: "int \<Rightarrow> pystr \<Rightarrow> sale_property" where
  "size_property value_id label =
     \<lparr>sp_propertyValueId = Some value_id, sp_value = label, sp_name = [23610, 30721], sp_level = 2\<rparr>"

definition document :: "sale_property list \<Rightarrow> sku list \<Rightarrow> product_data" where
  "document sale_props sku_list =
     \<lparr>spuId = Some 1000, detail_spuId = None, title_fields = [ascii ''Runner 2''],
      detail_logoUrl = Some (ascii ''https://img/1.jpg''), spuImage_images = [],
      brandName = Some (ascii ''Acme''), articleNumber = ascii ''A-1'', categoryId = None,
      categoryName = [], skus = sku_list, saleProperties_list = sale_props,
      priceInfo_skus = Map.empty\<rparr>"

text \<open>A shoe with the sizes 42 and 40, in this order.\<close>

definition shoe_document :: product_data where
  "shoe_document =
     document [size_property 11 (ascii ''42''), size_property 12 (ascii ''40'')]
       [sized_sku 1 11 [tier 2 (Some 3) 10000 None], sized_sku 2 12 [tier 2 (Some 3) 10000 None]]"

text \<open>A shoe whose only SKU has a standard price of 100.00 and an active price of 80.00.\<close>

definition discounted_tier :: price_tier where
  "discounted_tier = tier 2 (Some 3) 10000 (Some 8000)"

definition active_price_document :: product_data where
  "active_price_document =
     document [size_property 11 (ascii ''42'')] [sized_sku 1 11 [discounted_tier]]"

text \<open>
  A shoe whose only SKU has a standard price with a delivery window of 10 and a
  discounted price.
\<close>

definition slow_tier_2 :: price_tier where
  "slow_tier_2 = tier 2 (Some 10) 10000 None"

definition tier_8 :: price_tier where
  "tier_8 = tier 8 None 5000 None"

definition fast_tier_2 :: price_tier where
  "fast_tier_2 = tier 2 (Some 3) 10000 None"

definition slow_document :: product_data where
  "slow_document =
     document [size_property 11 (ascii ''42'')] [sized_sku 1 11 [slow_tier_2, tier_8]]"

text \<open>An accessory in which the SKU id 7 occurs twice.\<close>

definition accessory_document :: product_data where
  "accessory_document = document [] [bare_sku 7 [fast_tier_2], bare_sku 7 [fast_tier_2]]"

text \<open>An accessory with the SKUs 7 and 8.\<close>

definition accessory_document_2 :: product_data where
  "accessory_document_2 = document [] [bare_sku 8 [fast_tier_2], bare_sku 7 [fast_tier_2]]"

text \<open>The variants and the record that the example documents give.\<close>

definition example_variant :: "int \<Rightarrow> pystr \<Rightarrow> size_type \<Rightarrow> variant" where
  "example_variant sku_id size_eu st =
     \<lparr>v_sku_id = sku_id, v_size_eu = size_eu, v_size_type = st, v_price_cny = Fin 100,
      v_price_rub = Fin 100, v_is_available = True, v_stock_status = 1,
      v_price_source = ascii ''price.prices[] (type=2)''\<rparr>"

definition example_result :: "variant list \<Rightarrow> product" where
  "example_result vs =
     \<lparr>r_spu_id = 1000, r_title = ascii ''Runner 2'', r_brand = ascii ''Acme'', r_category = [],
      r_category_id = None, r_article_number = ascii ''A-1'',
      r_main_image_url = ascii ''https://img/1.jpg'', r_images = [ascii ''https://img/1.jpg''],
      r_variants = vs, r_is_active = True\<rparr>"

text \<open>The product type that \<open>parse_product_detail\<close> works with.\<close>

definition product_size_type :: "product_data \<Rightarrow> int list option \<Rightarrow> size_type" where
  "product_size_type product_data category_ids =
     fst (classify category_ids
            (fst (scan_sale_properties (saleProperties_list product_data) ([], None))))"

section \<open>Properties of the category filter\<close>

lemma is_child_of_absent:
  "categories_flat c = None \<Longrightarrow> is_child_of (Suc depth) categories_flat c p = Inr False"
  by simp

lemma is_child_of_returns:
  assumes dec: "parent_links_decrease categories_flat rank"
  shows "rank c + 2 \<le> depth \<Longrightarrow> \<exists>b. is_child_of depth categories_flat c p = Inr b"
proof (induction depth arbitrary: c)
  case 0
  then show ?case by simp
next
  case (Suc depth)
  then have d: "rank c + 1 \<le> depth" by simp
  then obtain d' where d': "depth = Suc d'" by (cases depth) auto
  show ?case
  proof (cases "categories_flat c")
    case None
    then show ?thesis by auto
  next
    case (Some cat)
    show ?thesis
    proof (cases "cat_parent cat")
      case None
      with Some d' show ?thesis by auto
    next
      case q: (Some q)
      show ?thesis
      proof (cases "q \<in> dom categories_flat")
        case False
        then have "categories_flat q = None" by auto
        with is_child_of_absent [of categories_flat q d' p] Some q d' show ?thesis by auto
      next
        case True
        with dec Some q have "rank q < rank c" unfolding parent_links_decrease_def by blast
        with d have "rank q + 2 \<le> depth" by simp
        from Suc.IH [OF this] obtain b where "is_child_of depth categories_flat q p = Inr b" ..
        with Some q show ?thesis by auto
      qed
    qed
  qed
qed

lemma is_child_of_True_rank:
  assumes dec: "parent_links_decrease categories_flat rank"
  shows "is_child_of depth categories_flat c p = Inr True \<Longrightarrow>
         c \<in> dom categories_flat \<and> (p \<in> dom categories_flat \<longrightarrow> rank p < rank c)"
proof (induction depth arbitrary: c)
  case 0
  then show ?case by simp
next
  case (Suc depth)
  from Suc.prems obtain cat where cat: "categories_flat c = Some cat"
    by (cases "categories_flat c") auto
  show ?case
  proof (cases "cat_parent cat = Some p")
    case True
    with cat dec show ?thesis unfolding parent_links_decrease_def by blast
  next
    case False
    with Suc.prems cat obtain q where q: "cat_parent cat = Some q"
      and rec: "is_child_of depth categories_flat q p = Inr True"
      by (cases "cat_parent cat") (auto split: if_splits)
    from Suc.IH [OF rec] have qd: "q \<in> dom categories_flat"
      and qp: "p \<in> dom categories_flat \<longrightarrow> rank p < rank q" by auto
    from dec cat q qd have "rank q < rank c" unfolding parent_links_decrease_def by blast
    with qp cat show ?thesis by auto
  qed
qed

lemma is_child_of_mono:
  "is_child_of depth categories_flat c p = Inr b \<Longrightarrow> depth \<le> depth' \<Longrightarrow>
   is_child_of depth' categories_flat c p = Inr b"
proof (induction depth arbitrary: c depth')
  case 0
  then show ?case by simp
next
  case (Suc depth)
  from Suc.prems(2) obtain d where d: "depth' = Suc d" and le: "depth \<le> d"
    by (cases depth') auto
  show ?case
  proof (cases "categories_flat c")
    case None
    with Suc.prems(1) d show ?thesis by simp
  next
    case (Some cat)
    show ?thesis
    proof (cases "cat_parent cat")
      case None
      with Some Suc.prems(1) d le show ?thesis by (auto split: if_splits)
    next
      case q: (Some q)
      show ?thesis
      proof (cases "q = p \<or> q = 0")
        case True
        with Some q Suc.prems(1) d show ?thesis by auto
      next
        case False
        with Some q Suc.prems(1) have "is_child_of depth categories_flat q p = Inr b" by simp
        from Suc.IH [OF this le] Some q False d show ?thesis by simp
      qed
    qed
  qed
qed

lemma is_child_of_cycle:
  assumes cyc: "parent_cycle categories_flat p cyc"
  shows "c \<in> cyc \<Longrightarrow> is_child_of depth categories_flat c p = Inl RecursionError"
proof (induction depth arbitrary: c)
  case 0
  then show ?case by simp
next
  case (Suc depth)
  with cyc obtain cat q where cat: "categories_flat c = Some cat" and q: "cat_parent cat = Some q"
    and n: "q \<noteq> p" "q \<noteq> 0" and m: "q \<in> cyc"
    unfolding parent_cycle_def by blast
  from Suc.IH [OF m] cat q n show ?case by simp
qed

lemma is_child_of_chain:
  assumes p: "p < 0 \<or> k \<le> p"
  shows "1 \<le> c \<Longrightarrow> c \<le> k \<Longrightarrow>
         is_child_of depth (chain_map k) c p = (if c \<le> int depth then Inr False else Inl RecursionError)"
proof (induction depth arbitrary: c)
  case 0
  then show ?case by simp
next
  case (Suc depth)
  show ?case
  proof (cases "c = 1")
    case True
    with Suc.prems p show ?thesis by (auto simp: chain_map_def)
  next
    case False
    with Suc.prems have "1 \<le> c - 1" "c - 1 \<le> k" by auto
    from Suc.IH [OF this] Suc.prems p False show ?thesis by (auto simp: chain_map_def)
  qed
qed

lemma cyclic_map_cycle: "parent_cycle cyclic_map 99 {1, 2}"
  by (simp add: parent_cycle_def cyclic_map_def)

lemma shoe_map_decreases: "parent_links_decrease shoe_map shoe_rank"
  by (auto simp: parent_links_decrease_def shoe_map_def shoe_rank_def split: if_splits)

lemma chain_map_decreases: "parent_links_decrease (chain_map k) chain_rank"
  by (auto simp: parent_links_decrease_def chain_map_def chain_rank_def split: if_splits)

lemma root_map_self: "is_child_of (Suc depth) root_map 5 5 = Inr False"
  by (simp add: root_map_def)

lemmas str_eval =
  ascii_def strip_def is_space_def is_digit_def lower_def digits_value_def pow10_def
  exponent_of_def decimal_of_def py_float_def

lemma dbl_round_39_2: "dbl_round (196 / 5) = Fin (2758454771764429 / 70368744177664)"
  by code_simp

lemma dbl_round_40: "dbl_round 40 = Fin 40"
  by code_simp

lemma py_float_39_2:
  "py_float (ascii ''39.2'') = Some (Fin (2758454771764429 / 70368744177664))"
  by (simp add: str_eval dbl_round_39_2)

lemma py_float_40: "py_float (ascii ''40'') = Some (Fin 40)"
  by (simp add: str_eval dbl_round_40)

lemma analyze_sizes_single:
  "py_float s = Some f \<Longrightarrow> analyze_sizes [s] = (fle f WOMEN_MAX_SIZE, fle MEN_MIN_SIZE f)"
  by (simp add: analyze_sizes_def)

text \<open>
  C2 (as stated, refuted). The claim says that \<open>is_child_of(c, c)\<close> is true for every
  category id \<open>c\<close> of the map. For the map with the single root category 5 (parent 0),
  \<open>is_child_of(5, 5)\<close> returns false: the parent 0 is not 5, and the walk stops at a
  root. (The stack has room for 1000 calls here; one is used.)
\<close>

theorem is_child_of_self_counterexample: "is_child_of 1000 root_map 5 5 = Inr False"
  using root_map_self [of 999] by simp

text \<open>
  C2 (amended). \<open>is_child_of\<close> is the strict descendant test: for every category id
  \<open>c\<close> that is absent from the map, and for every \<open>c\<close> of a map whose parent links
  have no cycle, \<open>is_child_of(c, c)\<close> never returns true, whatever the recursion limit:
  it returns false when the stack has room for the parent chain of \<open>c\<close> (\<open>rank c + 2\<close>
  calls are enough), and raises \<open>RecursionError\<close> otherwise. (The reflexive case is
  added by \<open>is_shoe_category\<close> for the two shoe roots only.)
\<close>

theorem is_child_of_self_never_True:
  assumes "categories_flat c = None \<or> parent_links_decrease categories_flat rank"
  shows "is_child_of depth categories_flat c c \<noteq> Inr True
         \<and> (rank c + 2 \<le> depth \<longrightarrow> is_child_of depth categories_flat c c = Inr False)"
proof (cases "categories_flat c")
  case None
  then show ?thesis by (cases depth) auto
next
  case (Some cat)
  with assms have dec: "parent_links_decrease categories_flat rank" by simp
  have nt: "is_child_of depth categories_flat c c \<noteq> Inr True"
  proof
    assume "is_child_of depth categories_flat c c = Inr True"
    from is_child_of_True_rank [OF dec this] show False by auto
  qed
  moreover have "is_child_of depth categories_flat c c = Inr False" if "rank c + 2 \<le> depth"
  proof -
    from is_child_of_returns [OF dec that] obtain b
      where "is_child_of depth categories_flat c c = Inr b" ..
    with nt show ?thesis by (cases b) auto
  qed
  ultimately show ?thesis by blast
qed

theorem is_child_of_self_never_True_witness:
  "(shoe_map 103 = None \<or> parent_links_decrease shoe_map shoe_rank)
   \<and> shoe_rank 103 + 2 \<le> 3
   \<and> is_child_of 3 shoe_map 103 103 = Inr False
   \<and> (chain_map 1000 1000 = None \<or> parent_links_decrease (chain_map 1000) chain_rank)
   \<and> is_child_of 999 (chain_map 1000) 1000 1000 = Inl RecursionError"
  using is_child_of_self_never_True [of shoe_map 103 shoe_rank 3] shoe_map_decreases
    is_child_of_self_never_True [of "chain_map 1000" 1000 chain_rank 999] chain_map_decreases
    is_child_of_chain [of 1000 1000 1000 999]
  by (simp add: shoe_rank_def)

text \<open>
  C3 (as stated, refuted). The claim says that the walk is bounded by a depth guard or a
  visited set and so terminates on a cyclic map. \<open>is_child_of\<close> has neither: on the map
  where the categories 1 and 2 are each other's parent, the walk from 1 towards 99 goes
  round the cycle until the interpreter's stack is exhausted and ends with
  \<open>RecursionError\<close> instead of a result, with room for 1000 calls and with room for
  1000000 calls alike.
\<close>

theorem is_child_of_cycle_counterexample:
  "is_child_of 1000 cyclic_map 1 99 = Inl RecursionError
   \<and> is_child_of 1000000 cyclic_map 1 99 = Inl RecursionError"
  using is_child_of_cycle [OF cyclic_map_cycle, of 1] by simp

text \<open>
  C3 (amended). \<open>is_child_of\<close> has no depth guard and no visited set; the only bound of
  the walk is the recursion limit of the interpreter. For every pair of ids: on a map
  whose parent links have no cycle (they go down some rank) the walk returns a value
  when the stack has room for \<open>rank category_id + 2\<close> calls; on every set of categories
  that the walk cannot leave (a cycle of parents that avoids \<open>0\<close> and \<open>parent_id\<close>) it
  raises \<open>RecursionError\<close>, whatever the recursion limit; and a chain without a cycle
  that is longer than the room on the stack raises \<open>RecursionError\<close> too: on the chain
  \<open>1, \<dots>, k\<close> the walk from \<open>category_id\<close> towards an id that is no parent in the
  chain returns false when the stack has room for \<open>category_id\<close> calls, and raises
  otherwise. The limit decides only between a value and the exception, never which
  value: a value returned with some room on the stack is returned with any larger room.
\<close>

theorem is_child_of_depth_bound:
  "(parent_links_decrease categories_flat rank \<and> rank category_id + 2 \<le> depth
      \<longrightarrow> (\<exists>b. is_child_of depth categories_flat category_id parent_id = Inr b))
   \<and> (parent_cycle categories_flat parent_id cyc \<and> category_id \<in> cyc
      \<longrightarrow> is_child_of depth categories_flat category_id parent_id = Inl RecursionError)
   \<and> (1 \<le> category_id \<and> category_id \<le> k \<and> (parent_id < 0 \<or> k \<le> parent_id)
      \<longrightarrow> is_child_of depth (chain_map k) category_id parent_id
            = (if category_id \<le> int depth then Inr False else Inl RecursionError))
   \<and> (is_child_of depth categories_flat category_id parent_id = Inr b \<and> depth \<le> depth'
      \<longrightarrow> is_child_of depth' categories_flat category_id parent_id = Inr b)"
proof (intro conjI impI)
  assume "parent_links_decrease categories_flat rank \<and> rank category_id + 2 \<le> depth"
  then show "\<exists>b. is_child_of depth categories_flat category_id parent_id = Inr b"
    using is_child_of_returns by blast
next
  assume "parent_cycle categories_flat parent_id cyc \<and> category_id \<in> cyc"
  then show "is_child_of depth categories_flat category_id parent_id = Inl RecursionError"
    using is_child_of_cycle by blast
next
  assume "1 \<le> category_id \<and> category_id \<le> k \<and> (parent_id < 0 \<or> k \<le> parent_id)"
  then show "is_child_of depth (chain_map k) category_id parent_id
    = (if category_id \<le> int depth then Inr False else Inl RecursionError)"
    using is_child_of_chain [of parent_id k category_id depth] by blast
next
  assume "is_child_of depth categories_flat category_id parent_id = Inr b \<and> depth \<le> depth'"
  then show "is_child_of depth' categories_flat category_id parent_id = Inr b"
    using is_child_of_mono by blast
qed

theorem is_child_of_depth_bound_witness:
  "parent_links_decrease shoe_map shoe_rank \<and> shoe_rank 103 + 2 \<le> 3
   \<and> is_child_of 3 shoe_map 103 101 = Inr True
   \<and> parent_cycle cyclic_map 99 {1, 2}
   \<and> is_child_of 1000 cyclic_map 2 99 = Inl RecursionError
   \<and> is_child_of 1000 (chain_map 1000) 1000 5000 = Inr False
   \<and> is_child_of 999 (chain_map 1000) 1000 5000 = Inl RecursionError
   \<and> is_child_of 4 shoe_map 103 101 = Inr True"
  using is_child_of_depth_bound [of shoe_map shoe_rank 103 3 101 "{}" 0 True 4]
    is_child_of_depth_bound [of cyclic_map shoe_rank 2 1000 99 "{1, 2}" 0 True 1000]
    is_child_of_depth_bound [of cyclic_map shoe_rank 1000 1000 5000 "{}" 1000 True 1000]
    is_child_of_depth_bound [of cyclic_map shoe_rank 1000 999 5000 "{}" 1000 True 999]
    shoe_map_decreases cyclic_map_cycle
  by (simp add: shoe_rank_def shoe_map_def numeral_3_eq_3)

text \<open>
  C4 (as stated, refuted). The claim says that every size label that parses as a float
  satisfies exactly one of \<open>size \<le> 39.0\<close> and \<open>size \<ge> 39.5\<close>. The label \<open>39.2\<close>
  parses and satisfies neither: \<open>analyze_sizes\<close> sets no flag for it.
\<close>

theorem analyze_sizes_gap_counterexample:
  "py_float (ascii ''39.2'') = Some (Fin (2758454771764429 / 70368744177664))
   \<and> analyze_sizes [ascii ''39.2''] = (False, False)"
  using analyze_sizes_single [OF py_float_39_2] py_float_39_2
  by (simp add: WOMEN_MAX_SIZE_def MEN_MIN_SIZE_def)

text \<open>
  C4 (amended). For every size label that parses as a float, at most one of the two
  predicates holds (the thresholds do not overlap), and neither holds exactly when the
  value lies strictly between 39.0 and 39.5 or is a NaN; every other numeric label
  satisfies exactly one of them.
\<close>

theorem analyze_sizes_thresholds:
  assumes "py_float s = Some f"
  shows "\<not> (fst (analyze_sizes [s]) \<and> snd (analyze_sizes [s]))
         \<and> ((\<not> fst (analyze_sizes [s]) \<and> \<not> snd (analyze_sizes [s]))
              = (f = NaN \<or> (\<exists>x. f = Fin x \<and> 39 < x \<and> x < 79 / 2)))"
  using analyze_sizes_single [OF assms]
  by (cases f) (auto simp: WOMEN_MAX_SIZE_def MEN_MIN_SIZE_def)

theorem analyze_sizes_thresholds_witness:
  "py_float (ascii ''40'') = Some (Fin 40)
   \<and> \<not> (fst (analyze_sizes [ascii ''40'']) \<and> snd (analyze_sizes [ascii ''40'']))
   \<and> snd (analyze_sizes [ascii ''40''])"
  using analyze_sizes_thresholds [OF py_float_40] py_float_40
    analyze_sizes_single [OF py_float_40]
  by (simp add: WOMEN_MAX_SIZE_def MEN_MIN_SIZE_def)

section \<open>Properties of the price calculator\<close>

subsection \<open>Rounding of the values used below\<close>

lemma dbl_round_small:
  "dbl_round 1 = Fin 1"
  "dbl_round 2 = Fin 2"
  "dbl_round 12 = Fin 12"
  "dbl_round 100 = Fin 100"
  "dbl_round 101 = Fin 101"
  "dbl_round 102 = Fin 102"
  "dbl_round 250 = Fin 250"
  "dbl_round 400 = Fin 400"
  "dbl_round 1200 = Fin 1200"
  "dbl_round 1600 = Fin 1600"
  "dbl_round 1920 = Fin 1920"
  by code_simp+

lemma dbl_round_1_2: "dbl_round (6 / 5) = Fin (5404319552844595 / 4503599627370496)"
  by code_simp

lemma dbl_round_1600_times_1_2: "dbl_round (135107988821114875 / 70368744177664) = Fin 1920"
  by code_simp

lemma dbl_round_1_234:
  "dbl_round (617 / 500) = Fin (694680242521899 / 562949953421312)"
  "dbl_round (3473401212609495 / 1125899906842624) = Fin (3473401212609495 / 1125899906842624)"
  "dbl_round (77 / 25) = Fin (1733885856537641 / 562949953421312)"
  by code_simp+

lemma round_half_even_308:
  "round_half_even (86835030315237375 / 281474976710656) = 308"
  "round_half_even 25000 = 25000"
  by code_simp+

text \<open>The int \<open>2 ** 1024\<close> lies beyond the range of the floats.\<close>

lemma bit_length_pow2: "bit_length (2 ^ k) = int k + 1"
proof (induction k)
  case 0
  show ?case by (simp add: bit_length.simps [of 1] bit_length.simps [of 0])
next
  case (Suc k)
  then show ?case by (simp add: bit_length.simps [of "2 * 2 ^ k"])
qed

lemma bit_length_1: "bit_length 1 = 1"
  using bit_length_pow2 [of 0] by simp

lemma dbl_round_overflow: "dbl_round (2 ^ 1024) = PInf"
proof -
  define q :: rat where "q = 2 ^ 1024"
  have qo: "quotient_of q = (2 ^ 1024, 1)"
    unfolding q_def using quotient_of_int [of "2 ^ 1024"] by simp
  have a: "\<bar>q\<bar> = q" and n: "q \<noteq> 0" by (simp_all add: q_def)
  have p: "pow2 1024 = q" by (simp add: pow2_def q_def)
  have f: "floor_log2 q = 1024"
    unfolding floor_log2_def qo using bit_length_pow2 [of 1024] by (simp add: bit_length_1 p)
  have s: "q = 2 ^ 52 * 2 ^ 972"
    unfolding q_def by (simp add: power_add [symmetric])
  have "q / pow2 972 = 2 ^ 52"
    unfolding s by (simp add: pow2_def)
  then have m: "round_half_even (q / pow2 972) = 4503599627370496"
    by (simp add: round_half_even_def)
  have "dbl_round q = PInf"
    unfolding dbl_round_def Let_def a f using n bit_length_pow2 [of 52]
    by (simp add: m)
  then show ?thesis by (simp only: q_def)
qed

lemma float_of_price_overflow: "float_of_price (PriceInt (2 ^ 1024)) = Raises"
  by (simp only: float_of_price_def to_float_def price_arg.case pynum.case of_int_power
      of_int_numeral dbl_round_overflow pyfloat.case)

lemmas arith_eval =
  bind_outcome_def py_add_def py_sub_def py_mul_def py_truediv_def float_op_def to_float_def
  fadd_def fmul_def fdiv_def round_2_def round_half_even_def fallback_price_def
  dbl_round_small dbl_round_1_2 dbl_round_1600_times_1_2

lemmas token_eval =
  ascii_def is_word_char_def is_name_start_def is_digit_def word_token_def digits_value_def

subsection \<open>The parser keeps the names of the formula\<close>

lemma apply_pending_names:
  "apply_pending q es = Some es' \<Longrightarrow> (\<Union>e\<in>set es'. names_of e) \<subseteq> (\<Union>e\<in>set es. names_of e)"
  by (induction q es rule: apply_pending.induct) auto

lemma reduce_pending_names:
  "reduce_pending p ops es = Some (ops', es') \<Longrightarrow>
     (\<Union>e\<in>set es'. names_of e) \<subseteq> (\<Union>e\<in>set es. names_of e)"
proof (induction p ops es rule: reduce_pending.induct)
  case (1 p es)
  then show ?case by simp
next
  case (2 p q ops es)
  show ?case
  proof (cases "p \<le> prec q")
    case True
    with "2.prems" obtain es1 where a: "apply_pending q es = Some es1"
      and r: "reduce_pending p ops es1 = Some (ops', es')"
      by (auto split: option.splits)
    from "2.IH" [OF True a r] apply_pending_names [OF a] show ?thesis by blast
  next
    case False
    with "2.prems" show ?thesis by simp
  qed
qed

lemma parse_tokens_names:
  "parse_tokens ts expect ops es = Parsed e \<Longrightarrow>
     names_of e \<subseteq> (\<Union>t\<in>set ts. token_names t) \<union> (\<Union>e\<in>set es. names_of e)"
proof (induction ts expect ops es rule: parse_tokens.induct)
  case (1 expect ops es)
  then obtain es' where "reduce_pending 1 ops es = Some ([], es')" and "es' = [e]"
    by (auto split: if_splits option.splits list.splits prod.splits)
  with reduce_pending_names [of 1 ops es "[]" es'] show ?case by auto
next
  case (2 n ts expect ops es)
  then show ?case by (auto split: if_splits)
next
  case (3 s ts expect ops es)
  then show ?case by (fastforce split: if_splits)
next
  case (4 ts expect ops es)
  then show ?case by (auto split: if_splits)
next
  case (5 ts expect ops es)
  from "5.prems" obtain ops' es' where r: "reduce_pending 1 ops es = Some (OParen # ops', es')"
    and p: "parse_tokens ts False ops' es' = Parsed e" and ne: "\<not> expect"
    by (auto split: if_splits option.splits list.splits prod.splits pending.splits)
  from "5.IH" [OF ne r refl refl refl p] reduce_pending_names [OF r] show ?case by auto
next
  case (6 ts expect ops es)
  show ?case
  proof (cases expect)
    case True
    with 6 show ?thesis by auto
  next
    case False
    with "6.prems" obtain ops' es' where r: "reduce_pending 1 ops es = Some (ops', es')"
      and p: "parse_tokens ts True (OAdd # ops') es' = Parsed e"
      by (auto split: option.splits prod.splits)
    from "6.IH"(2) [OF False r refl p] reduce_pending_names [OF r] show ?thesis by auto
  qed
next
  case (7 ts expect ops es)
  show ?case
  proof (cases expect)
    case True
    with 7 show ?thesis by auto
  next
    case False
    with "7.prems" obtain ops' es' where r: "reduce_pending 1 ops es = Some (ops', es')"
      and p: "parse_tokens ts True (OSub # ops') es' = Parsed e"
      by (auto split: option.splits prod.splits)
    from "7.IH"(2) [OF False r refl p] reduce_pending_names [OF r] show ?thesis by auto
  qed
next
  case (8 ts expect ops es)
  from "8.prems" obtain ops' es' where r: "reduce_pending 2 ops es = Some (ops', es')"
    and p: "parse_tokens ts True (OMul # ops') es' = Parsed e" and ne: "\<not> expect"
    by (auto split: if_splits option.splits prod.splits)
  from "8.IH" [OF ne r refl p] reduce_pending_names [OF r] show ?case by auto
next
  case (9 ts expect ops es)
  from "9.prems" obtain ops' es' where r: "reduce_pending 2 ops es = Some (ops', es')"
    and p: "parse_tokens ts True (ODiv # ops') es' = Parsed e" and ne: "\<not> expect"
    by (auto split: if_splits option.splits prod.splits)
  from "9.IH" [OF ne r refl p] reduce_pending_names [OF r] show ?case by auto
qed

lemma eval_expr_agree:
  "(\<forall>s\<in>names_of e. sc1 s = sc2 s) \<Longrightarrow> eval_expr sc1 e = eval_expr sc2 e"
  by (induction e) auto

lemma scope_of_known:
  "token_known (scope_of pc1 p x1 c1) t = token_known (scope_of pc2 p x2 c2) t"
  by (cases t) (simp_all add: scope_of_def Let_def split: price_arg.splits)

lemma scope_of_agree:
  assumes "parameters pc1 = parameters pc2"
    and "s \<in> {ascii ''x'', ascii ''a'', ascii ''b'', ascii ''c''}"
  shows "scope_of pc1 p x c1 s = scope_of pc2 p x c2 s"
  using assms by (auto simp: scope_of_def Let_def get_param_def ascii_def split: price_arg.splits)

lemma py_eval_agree:
  assumes "parameters pc1 = parameters pc2"
    and "formula_names f \<subseteq> {ascii ''x'', ascii ''a'', ascii ''b'', ascii ''c''}"
  shows "py_eval (scope_of pc1 p x c1) f = py_eval (scope_of pc2 p x c2) f"
proof (cases "tokenize f")
  case None
  then show ?thesis by (simp add: py_eval_def)
next
  case (Some ts)
  have known: "list_all (token_known (scope_of pc1 p x c1)) ts
               = list_all (token_known (scope_of pc2 p x c2)) ts"
    by (simp add: list_all_iff scope_of_known [of pc1 p x c1 _ pc2 x c2])
  show ?thesis
  proof (cases "parse_tokens ts True [] []")
    case (Parsed e)
    from parse_tokens_names [OF Parsed] assms(2) Some
    have "names_of e \<subseteq> {ascii ''x'', ascii ''a'', ascii ''b'', ascii ''c''}"
      by (auto simp: formula_names_def)
    then have "\<forall>s\<in>names_of e. scope_of pc1 p x c1 s = scope_of pc2 p x c2 s"
      using scope_of_agree [OF assms(1)] by blast
    from eval_expr_agree [OF this] Some Parsed known show ?thesis
      by (simp add: py_eval_def)
  next
    case SyntaxOrTypeError
    with Some known show ?thesis by (simp add: py_eval_def)
  next
    case OutsideFragment
    with Some known show ?thesis by (simp add: py_eval_def)
  qed
qed

subsection \<open>Evaluation of particular formulas\<close>

lemma days_neq: "days_21_26 \<noteq> days_10_14"
  by (simp add: days_21_26_def days_10_14_def ascii_def)

lemma tokenize_default:
  "tokenize (ascii ''(x * a + 400) * b'') =
     Some [TLParen, TName (ascii ''x''), TStar, TName (ascii ''a''), TPlus, TNum (PInt 400),
           TRParen, TStar, TName (ascii ''b'')]"
  by (simp add: token_eval)

lemma parse_default:
  "parse_tokens [TLParen, TName (ascii ''x''), TStar, TName (ascii ''a''), TPlus, TNum (PInt 400),
                 TRParen, TStar, TName (ascii ''b'')] True [] [] =
     Parsed (Mul (Add (Mul (Name (ascii ''x'')) (Name (ascii ''a''))) (Lit (PInt 400)))
               (Name (ascii ''b'')))"
  by simp

lemma py_eval_default:
  assumes "scope (ascii ''x'') = Some x" and "scope (ascii ''a'') = Some a"
    and "scope (ascii ''b'') = Some b"
  shows "py_eval scope (ascii ''(x * a + 400) * b'') =
           eval_expr scope (Mul (Add (Mul (Name (ascii ''x'')) (Name (ascii ''a'')))
                                   (Lit (PInt 400))) (Name (ascii ''b'')))"
  unfolding py_eval_def tokenize_default using assms
  by (simp add: parse_default) (simp add: ascii_def)

lemma formula_names_default:
  "formula_names (ascii ''(x * a + 400) * b'') = {ascii ''x'', ascii ''a'', ascii ''b''}"
  unfolding formula_names_def tokenize_default by auto

lemma get_formula_no_override:
  assumes "default_formula pc delivery_days = Some f"
    and "\<forall>category_formulas. formulas pc (str_int category_id) = Some category_formulas
           \<longrightarrow> category_formulas delivery_days = None"
  shows "get_formula pc category_id delivery_days = f"
  using assms by (auto simp: get_formula_def split: option.splits)

lemma tokenize_leaking:
  "tokenize (ascii ''x + category_id'') = Some [TName (ascii ''x''), TPlus, TName (ascii ''category_id'')]"
  by (simp add: token_eval)

lemma py_eval_leaking:
  "py_eval (scope_of leaking_config (PriceFloat (Fin 100)) (Fin 100) c) (ascii ''x + category_id'') =
     py_add (PFloat (Fin 100)) (PInt c)"
  unfolding py_eval_def tokenize_leaking
  by (simp add: scope_of_def Let_def) (simp add: ascii_def bind_outcome_def)

lemma get_formula_leaking: "get_formula leaking_config c days_21_26 = ascii ''x + category_id''"
  by (simp add: get_formula_def leaking_config_def set_defaults_def)

lemma tokenize_failing:
  "tokenize (ascii ''x / 0'') = Some [TName (ascii ''x''), TSlash, TNum (PInt 0)]"
  by (simp add: token_eval)

lemma py_eval_failing:
  "py_eval (scope_of failing_config p x c) (ascii ''x / 0'') = Raises"
  unfolding py_eval_def tokenize_failing
  by (cases p; simp add: scope_of_def Let_def)
    (simp_all add: ascii_def bind_outcome_def py_truediv_def to_float_def dbl_round_def)

lemma get_formula_failing: "get_formula failing_config c days_21_26 = ascii ''x / 0''"
  by (simp add: get_formula_def failing_config_def set_defaults_def)

text \<open>
  C7 (as stated, refuted). The claim says that the result of the formula depends on
  nothing outside \<open>x\<close> and the configured parameters, for any formula string. The
  formula is handed to \<open>eval\<close> in the scope of \<open>calculate_price\<close>, where the local
  variable \<open>category_id\<close> is bound too: with the formula \<open>x + category_id\<close> configured
  for the tier, two calls with the same base price 100, the same parameters and the same
  formula string return 101.0 for category 1 and 102.0 for category 2.
\<close>

theorem calculate_price_scope_counterexample:
  "get_formula leaking_config 1 days_21_26 = get_formula leaking_config 2 days_21_26
   \<and> calculate_price leaking_config (PriceFloat (Fin 100)) 1 days_21_26 = Returns (PFloat (Fin 101))
   \<and> calculate_price leaking_config (PriceFloat (Fin 100)) 2 days_21_26 = Returns (PFloat (Fin 102))"
  by (simp add: calculate_price_def float_of_price_def get_formula_leaking py_eval_leaking arith_eval)

text \<open>
  C7 (amended). The formula string is evaluated by Python's \<open>eval\<close> in the scope of
  \<open>calculate_price\<close>; nothing restricts it to arithmetic, and it can read every name in
  that scope. For the formulas of the arithmetic fragment (numerals, \<open>+ - * /\<close>,
  parentheses) that name only \<open>x\<close>, \<open>a\<close>, \<open>b\<close>, \<open>c\<close>, the result depends on nothing
  but the formula string, \<open>x\<close> and the parameters: two runs with the same formula, equal
  \<open>x\<close> and equal parameters produce equal results, whatever the category ids.
\<close>

theorem calculate_price_depends_on_bound_variables:
  assumes "get_formula pc1 c1 d1 = get_formula pc2 c2 d2"
    and "parameters pc1 = parameters pc2"
    and "formula_names (get_formula pc1 c1 d1) \<subseteq> {ascii ''x'', ascii ''a'', ascii ''b'', ascii ''c''}"
  shows "calculate_price pc1 x c1 d1 = calculate_price pc2 x c2 d2"
proof (cases "float_of_price x")
  case (Returns f)
  with py_eval_agree [OF assms(2,3), of x f c1 c2] assms(1) show ?thesis
    by (simp add: calculate_price_def)
qed (simp_all add: calculate_price_def)

theorem calculate_price_depends_on_bound_variables_witness:
  "get_formula set_defaults 1 days_21_26 = get_formula set_defaults 2 days_21_26
   \<and> parameters set_defaults = parameters set_defaults
   \<and> formula_names (get_formula set_defaults 1 days_21_26)
        \<subseteq> {ascii ''x'', ascii ''a'', ascii ''b'', ascii ''c''}
   \<and> calculate_price set_defaults (PriceFloat (Fin 100)) 1 days_21_26
        = calculate_price set_defaults (PriceFloat (Fin 100)) 2 days_21_26"
proof -
  have f: "get_formula set_defaults c days_21_26 = ascii ''(x * a + 400) * b''" for c
    by (simp add: get_formula_def set_defaults_def days_neq)
  have n: "formula_names (get_formula set_defaults 1 days_21_26)
             \<subseteq> {ascii ''x'', ascii ''a'', ascii ''b'', ascii ''c''}"
    unfolding f formula_names_default by auto
  have e: "get_formula set_defaults 1 days_21_26 = get_formula set_defaults 2 days_21_26"
    by (simp add: f)
  from calculate_price_depends_on_bound_variables [OF e refl n, of "PriceFloat (Fin 100)"] e n
  show ?thesis by simp
qed

text \<open>
  C8 (as stated, refuted). The claim says that \<open>calculate_price\<close> never raises to the
  caller, for every base price. The conversion \<open>x = float(price_cny)\<close> stands before the
  \<open>try\<close>: with the default configuration, the base price \<open>None\<close> (the value of a
  null \<open>price_cny\<close> column) raises \<open>TypeError\<close> and the int \<open>2 ** 1024\<close> raises
  \<open>OverflowError\<close>, and both exceptions leave \<open>calculate_price\<close>.
\<close>

theorem calculate_price_raises_counterexample:
  "calculate_price set_defaults PriceNone 103 days_21_26 = Raises
   \<and> calculate_price set_defaults (PriceInt (2 ^ 1024)) 103 days_21_26 = Raises"
proof
  show "calculate_price set_defaults PriceNone 103 days_21_26 = Raises"
    by (simp add: calculate_price_def float_of_price_def)
  show "calculate_price set_defaults (PriceInt (2 ^ 1024)) 103 days_21_26 = Raises"
    by (simp only: calculate_price_def Let_def float_of_price_overflow outcome.case)
qed

text \<open>
  C8 (amended). A base price that \<open>float()\<close> rejects makes \<open>calculate_price\<close> raise,
  whatever the formula. For every base price that \<open>float()\<close> converts to some \<open>x\<close> (a
  float, a \<open>Decimal\<close>, an int within the range of the floats), and every category id
  and delivery tier whose formula lies in the arithmetic fragment, \<open>calculate_price\<close>
  returns a value and does not raise; when the evaluation of the formula raises (a
  malformed formula, a division by zero, an overflow), the value is
  \<open>round(x * 2.5, 2)\<close>: for a finite \<open>x\<close> the product \<open>x * 2.5\<close> rounded to a float,
  that float rounded half-even to two decimals and to a float again; for an infinite
  \<open>x\<close> or a NaN, \<open>x\<close> itself.
\<close>

theorem calculate_price_raises_only_at_conversion:
  "(float_of_price price_cny = Raises
      \<longrightarrow> calculate_price pc price_cny category_id delivery_days = Raises)
   \<and> (float_of_price price_cny = Returns x
       \<and> py_eval (scope_of pc price_cny x category_id) (get_formula pc category_id delivery_days)
            \<noteq> Unmodelled
      \<longrightarrow> (\<exists>v. calculate_price pc price_cny category_id delivery_days = Returns v)
          \<and> (py_eval (scope_of pc price_cny x category_id)
                 (get_formula pc category_id delivery_days) = Raises
               \<longrightarrow> calculate_price pc price_cny category_id delivery_days
                     = Returns (PFloat
                         (case x of
                            Fin p \<Rightarrow>
                              (case dbl_round (p * (5 / 2)) of
                                 Fin q \<Rightarrow> dbl_round (of_int (round_half_even (q * 100)) / 100)
                               | f \<Rightarrow> f)
                          | f \<Rightarrow> f))))"
proof (intro conjI impI)
  assume "float_of_price price_cny = Raises"
  then show "calculate_price pc price_cny category_id delivery_days = Raises"
    by (simp add: calculate_price_def)
next
  assume "float_of_price price_cny = Returns x
    \<and> py_eval (scope_of pc price_cny x category_id) (get_formula pc category_id delivery_days)
         \<noteq> Unmodelled"
  then show "\<exists>v. calculate_price pc price_cny category_id delivery_days = Returns v"
    by (auto simp: calculate_price_def split: outcome.splits)
next
  assume "float_of_price price_cny = Returns x
    \<and> py_eval (scope_of pc price_cny x category_id) (get_formula pc category_id delivery_days)
         \<noteq> Unmodelled"
    and "py_eval (scope_of pc price_cny x category_id)
           (get_formula pc category_id delivery_days) = Raises"
  then have "calculate_price pc price_cny category_id delivery_days = Returns (fallback_price x)"
    by (simp add: calculate_price_def)
  also have "fallback_price x = PFloat
       (case x of
          Fin p \<Rightarrow>
            (case dbl_round (p * (5 / 2)) of
               Fin q \<Rightarrow> dbl_round (of_int (round_half_even (q * 100)) / 100)
             | f \<Rightarrow> f)
        | f \<Rightarrow> f)"
    by (cases x)
      (simp_all add: fallback_price_def fmul_def round_2_def fsign_def inf_of_sign_def
        split: pyfloat.splits)
  finally show "calculate_price pc price_cny category_id delivery_days
     = Returns (PFloat
         (case x of
            Fin p \<Rightarrow>
              (case dbl_round (p * (5 / 2)) of
                 Fin q \<Rightarrow> dbl_round (of_int (round_half_even (q * 100)) / 100)
               | f \<Rightarrow> f)
          | f \<Rightarrow> f))" .
qed

theorem calculate_price_raises_only_at_conversion_witness:
  "float_of_price PriceNone = Raises
   \<and> calculate_price failing_config PriceNone 7 days_21_26 = Raises
   \<and> float_of_price (PriceInt 100) = Returns (Fin 100)
   \<and> py_eval (scope_of failing_config (PriceInt 100) (Fin 100) 7)
        (get_formula failing_config 7 days_21_26) = Raises
   \<and> calculate_price failing_config (PriceInt 100) 7 days_21_26 = Returns (PFloat (Fin 250))
   \<and> float_of_price (PriceDecimal (1234 / 1000))
        = Returns (Fin (694680242521899 / 562949953421312))
   \<and> py_eval (scope_of failing_config (PriceDecimal (1234 / 1000))
          (Fin (694680242521899 / 562949953421312)) 7)
        (get_formula failing_config 7 days_21_26) = Raises
   \<and> calculate_price failing_config (PriceDecimal (1234 / 1000)) 7 days_21_26
        = Returns (PFloat (Fin (1733885856537641 / 562949953421312)))"
  using calculate_price_raises_only_at_conversion [of PriceNone failing_config 7 days_21_26 NaN]
    calculate_price_raises_only_at_conversion
      [of "PriceInt 100" failing_config 7 days_21_26 "Fin 100"]
    calculate_price_raises_only_at_conversion
      [of "PriceDecimal (1234 / 1000)" failing_config 7 days_21_26
          "Fin (694680242521899 / 562949953421312)"]
  by (simp add: float_of_price_def to_float_def get_formula_failing py_eval_failing
      dbl_round_small dbl_round_1_234 round_half_even_308)

text \<open>
  C9. With the parameters \<open>a = 12\<close> and \<open>b = 1.2\<close> and the default formula
  \<open>(x * a + 400) * b\<close> for the tier of 21 to 26 days (as in the default configuration),
  \<open>calculate_price(100, c, tier)\<close> returns exactly \<open>1920.0\<close> for every category id
  \<open>c\<close> without a formula of its own for that tier, whether the base price 100 is
  passed as an int, as a float or as a \<open>Decimal\<close>.
\<close>

theorem calculate_price_default_1920:
  assumes "parameters pc (ascii ''a'') = Some (PInt 12)"
    and "parameters pc (ascii ''b'') = Some (PFloat (dbl_round (12 / 10)))"
    and "default_formula pc days_21_26 = Some (ascii ''(x * a + 400) * b'')"
    and "\<forall>category_formulas. formulas pc (str_int c) = Some category_formulas
           \<longrightarrow> category_formulas days_21_26 = None"
  shows "calculate_price pc (PriceInt 100) c days_21_26 = Returns (PFloat (Fin 1920))
         \<and> calculate_price pc (PriceFloat (Fin 100)) c days_21_26 = Returns (PFloat (Fin 1920))
         \<and> calculate_price pc (PriceDecimal 100) c days_21_26 = Returns (PFloat (Fin 1920))"
proof -
  have f: "get_formula pc c days_21_26 = ascii ''(x * a + 400) * b''"
    using assms(3,4) by (rule get_formula_no_override)
  have x: "float_of_price (PriceInt 100) = Returns (Fin 100)"
    "float_of_price (PriceFloat (Fin 100)) = Returns (Fin 100)"
    "float_of_price (PriceDecimal 100) = Returns (Fin 100)"
    by (simp_all add: float_of_price_def to_float_def dbl_round_small)
  have sc: "scope_of pc p (Fin 100) c (ascii ''x'') = Some (PFloat (Fin 100))"
    "scope_of pc p (Fin 100) c (ascii ''a'') = Some (PInt 12)"
    "scope_of pc p (Fin 100) c (ascii ''b'') = Some (PFloat (Fin (5404319552844595 / 4503599627370496)))"
    for p
    using assms(1,2)
    by (cases p; simp add: scope_of_def Let_def get_param_def dbl_round_1_2; simp add: ascii_def)+
  have "calculate_price pc p c days_21_26 = Returns (PFloat (Fin 1920))"
    if "float_of_price p = Returns (Fin 100)" for p
    unfolding calculate_price_def f Let_def that outcome.case py_eval_default [OF sc]
    by (simp add: sc arith_eval)
  with x show ?thesis by simp
qed

theorem calculate_price_default_1920_witness:
  "parameters set_defaults (ascii ''a'') = Some (PInt 12)
   \<and> parameters set_defaults (ascii ''b'') = Some (PFloat (dbl_round (12 / 10)))
   \<and> default_formula set_defaults days_21_26 = Some (ascii ''(x * a + 400) * b'')
   \<and> formulas set_defaults (str_int 103) = None
   \<and> calculate_price set_defaults (PriceInt 100) 103 days_21_26 = Returns (PFloat (Fin 1920))
   \<and> calculate_price set_defaults (PriceFloat (Fin 100)) 103 days_21_26 = Returns (PFloat (Fin 1920))
   \<and> calculate_price set_defaults (PriceDecimal 100) 103 days_21_26 = Returns (PFloat (Fin 1920))"
proof -
  have a: "parameters set_defaults (ascii ''a'') = Some (PInt 12)"
    by (simp add: set_defaults_def ascii_def)
  have b: "parameters set_defaults (ascii ''b'') = Some (PFloat (dbl_round (12 / 10)))"
    by (simp add: set_defaults_def ascii_def)
  have d: "default_formula set_defaults days_21_26 = Some (ascii ''(x * a + 400) * b'')"
    by (simp add: set_defaults_def days_neq)
  have n: "\<forall>category_formulas. formulas set_defaults (str_int 103) = Some category_formulas
             \<longrightarrow> category_formulas days_21_26 = None"
    by (simp add: set_defaults_def)
  have e: "formulas set_defaults (str_int 103) = None"
    by (simp add: set_defaults_def)
  from calculate_price_default_1920 [OF a b d n] a b d e show ?thesis by simp
qed

section \<open>Properties of the product processor\<close>

subsection \<open>The loop over the SKUs\<close>

lemma process_size_emitted:
  assumes "process_size env found sku = Emitted v"
  shows "v_sku_id v = sku_id_of sku \<and> v_size_type v = e_size_type env"
  using assms
  by (auto simp: process_size_def Let_def split: if_splits sku_result.splits option.splits prod.splits)

lemma process_sku_emitted:
  assumes "process_sku env found sku = Emitted v"
  shows "v_sku_id v = sku_id_of sku \<and> v_size_type v = e_size_type env
         \<and> (e_size_type env = Accessories \<and> given (e_reference_sku_id env)
              \<longrightarrow> str_int (sku_id_of sku) = ref_string (e_reference_sku_id env))"
  using assms process_size_emitted [of env found sku v]
  by (auto simp: process_sku_def Let_def split: if_splits)

lemma sku_loop_appends:
  assumes "sku_loop env sku_list variants found = Some out"
  shows "\<exists>new. out = variants @ new
           \<and> subseq (map v_sku_id new) (map sku_id_of sku_list)
           \<and> (\<forall>v\<in>set new. v_size_type v = e_size_type env)"
  using assms
proof (induction sku_list arbitrary: variants found)
  case Nil
  then show ?case by simp
next
  case (Cons sku rest)
  show ?case
  proof (cases "process_sku env found sku")
    case (Emitted v)
    with Cons.prems obtain f' where "sku_loop env rest (variants @ [v]) f' = Some out"
      by auto
    from Cons.IH [OF this] obtain new where new: "out = (variants @ [v]) @ new"
      "subseq (map v_sku_id new) (map sku_id_of rest)"
      "\<forall>v\<in>set new. v_size_type v = e_size_type env" by blast
    from process_sku_emitted [OF Emitted] new
    have "out = variants @ (v # new) \<and> subseq (map v_sku_id (v # new)) (map sku_id_of (sku # rest))
          \<and> (\<forall>v\<in>set (v # new). v_size_type v = e_size_type env)"
      by auto
    then show ?thesis by blast
  next
    case Skipped
    with Cons.prems have "sku_loop env rest variants found = Some out" by simp
    from Cons.IH [OF this] obtain new where new: "out = variants @ new"
      "subseq (map v_sku_id new) (map sku_id_of rest)"
      "\<forall>v\<in>set new. v_size_type v = e_size_type env" by blast
    then have "subseq (map v_sku_id new) (map sku_id_of (sku # rest))" by auto
    with new show ?thesis by blast
  next
    case Crashed
    with Cons.prems show ?thesis by simp
  qed
qed

lemma sku_loop_reference:
  assumes "sku_loop env sku_list variants found = Some out"
    and "e_size_type env = Accessories" and "given (e_reference_sku_id env)"
  shows "\<exists>new. out = variants @ new
           \<and> subseq (map v_sku_id new)
                (map sku_id_of (filter (\<lambda>sku. str_int (sku_id_of sku) = ref_string (e_reference_sku_id env)) sku_list))"
  using assms(1)
proof (induction sku_list arbitrary: variants found)
  case Nil
  then show ?case by simp
next
  case (Cons sku rest)
  show ?case
  proof (cases "process_sku env found sku")
    case (Emitted v)
    with Cons.prems obtain f' where "sku_loop env rest (variants @ [v]) f' = Some out"
      by auto
    from Cons.IH [OF this] obtain new where new: "out = (variants @ [v]) @ new"
      "subseq (map v_sku_id new)
         (map sku_id_of (filter (\<lambda>sku. str_int (sku_id_of sku) = ref_string (e_reference_sku_id env)) rest))"
      by blast
    from process_sku_emitted [OF Emitted] assms(2,3)
    have "v_sku_id v = sku_id_of sku" "str_int (sku_id_of sku) = ref_string (e_reference_sku_id env)"
      by auto
    with new have "out = variants @ (v # new) \<and> subseq (map v_sku_id (v # new))
        (map sku_id_of (filter (\<lambda>sku. str_int (sku_id_of sku) = ref_string (e_reference_sku_id env)) (sku # rest)))"
      by auto
    then show ?thesis by blast
  next
    case Skipped
    with Cons.prems have "sku_loop env rest variants found = Some out" by simp
    from Cons.IH [OF this] obtain new where new: "out = variants @ new"
      "subseq (map v_sku_id new)
         (map sku_id_of (filter (\<lambda>sku. str_int (sku_id_of sku) = ref_string (e_reference_sku_id env)) rest))"
      by blast
    then have "subseq (map v_sku_id new)
         (map sku_id_of (filter (\<lambda>sku. str_int (sku_id_of sku) = ref_string (e_reference_sku_id env)) (sku # rest)))"
      by auto
    with new show ?thesis by blast
  next
    case Crashed
    with Cons.prems show ?thesis by simp
  qed
qed

lemma parse_product_detail_variants:
  assumes "parse_product_detail pf pd ref cats = Inr r"
  shows "\<exists>color0. sku_loop (env_of pf pd ref cats color0) (skus pd) [] False = Some (r_variants r)
           \<and> r_variants r \<noteq> []"
  using assms
  by (auto simp: parse_product_detail_def Let_def split: option.splits if_splits)

lemma scan_sale_properties_fst:
  "fst (scan_sale_properties props (m, c)) = fst (scan_sale_properties props (m, c'))"
  by (induction props arbitrary: m c c') (auto simp: Let_def split: option.splits)

lemma env_of_fields:
  "e_size_type (env_of pf pd ref cats color0) = product_size_type pd cats"
  "e_reference_sku_id (env_of pf pd ref cats color0) = ref"
  unfolding env_of_def product_size_type_def
  using scan_sale_properties_fst [of "saleProperties_list pd" "[]" color0 None]
  by (auto simp: Let_def split: prod.splits)

subsection \<open>\<open>str\<close> of an \<open>int\<close> is injective\<close>

lemma str_nat_small: "n < 10 \<Longrightarrow> str_nat n = [48 + n]"
  by (subst str_nat.simps) simp

lemma str_nat_large: "\<not> n < 10 \<Longrightarrow> str_nat n = str_nat (n div 10) @ [48 + n mod 10]"
  by (subst str_nat.simps) simp

lemma str_nat_nonempty: "str_nat n \<noteq> []"
  by (cases "n < 10") (simp_all add: str_nat_small str_nat_large)

lemma str_nat_is_digit: "c \<in> set (str_nat n) \<Longrightarrow> 48 \<le> c"
proof (induction n rule: str_nat.induct)
  case (1 n)
  then show ?case
    by (cases "n < 10") (auto simp: str_nat_small str_nat_large)
qed

lemma str_nat_inj: "str_nat m = str_nat n \<Longrightarrow> m = n"
proof (induction m arbitrary: n rule: str_nat.induct)
  case (1 m)
  show ?case
  proof (cases "m < 10")
    case True
    note m = this
    show ?thesis
    proof (cases "n < 10")
      case True
      with m "1.prems" show ?thesis by (simp add: str_nat_small)
    next
      case False
      with m "1.prems" str_nat_nonempty [of "n div 10"] show ?thesis
        by (simp add: str_nat_small str_nat_large)
    qed
  next
    case False
    note m = this
    show ?thesis
    proof (cases "n < 10")
      case True
      with m "1.prems" str_nat_nonempty [of "m div 10"] show ?thesis
        by (simp add: str_nat_small str_nat_large)
    next
      case False
      with m "1.prems" have a: "str_nat (m div 10) = str_nat (n div 10)" and b: "m mod 10 = n mod 10"
        by (simp_all add: str_nat_large)
      from "1.IH" [OF m a] have "m div 10 = n div 10" .
      with b show ?thesis by (metis div_mult_mod_eq)
    qed
  qed
qed

lemma str_int_inj: "str_int a = str_int b \<Longrightarrow> a = b"
proof -
  assume e: "str_int a = str_int b"
  have neg: "hd (str_nat k) \<noteq> 45" for k
  proof -
    have "hd (str_nat k) \<in> set (str_nat k)" using str_nat_nonempty [of k] by simp
    from str_nat_is_digit [OF this] show ?thesis by simp
  qed
  show ?thesis
  proof (cases "a < 0")
    case True
    note a = this
    show ?thesis
    proof (cases "b < 0")
      case True
      with a e have "str_nat (nat (- a)) = str_nat (nat (- b))" by (simp add: str_int_def)
      from str_nat_inj [OF this] a True show ?thesis by simp
    next
      case False
      with a e have "45 # str_nat (nat (- a)) = str_nat (nat b)" by (simp add: str_int_def)
      with neg [of "nat b"] show ?thesis by (metis list.sel(1))
    qed
  next
    case False
    note a = this
    show ?thesis
    proof (cases "b < 0")
      case True
      with a e have "str_nat (nat a) = 45 # str_nat (nat (- b))" by (simp add: str_int_def)
      with neg [of "nat a"] show ?thesis by (metis list.sel(1))
    next
      case False
      with a e have "str_nat (nat a) = str_nat (nat b)" by (simp add: str_int_def)
      from str_nat_inj [OF this] a False show ?thesis by simp
    qed
  qed
qed

lemma filter_same_key_distinct:
  assumes "distinct (map f xs)" and "\<forall>x\<in>set xs. P x \<longrightarrow> f x = k"
  shows "length (filter P xs) \<le> 1"
  using assms
proof (induction xs)
  case Nil
  then show ?case by simp
next
  case (Cons x xs)
  show ?case
  proof (cases "P x")
    case True
    with Cons.prems have "filter P xs = []"
      by (auto simp: filter_empty_conv) (metis image_eqI)
    with True show ?thesis by simp
  next
    case False
    with Cons show ?thesis by simp
  qed
qed

lemma matching_skus_distinct:
  assumes "distinct (map sku_id_of sku_list)"
  shows "length (filter (\<lambda>sku. str_int (sku_id_of sku) = s) sku_list) \<le> 1"
proof (cases "\<exists>sku\<in>set sku_list. str_int (sku_id_of sku) = s")
  case True
  then obtain sku0 where "str_int (sku_id_of sku0) = s" by blast
  then have "\<forall>x\<in>set sku_list. str_int (sku_id_of x) = s \<longrightarrow> sku_id_of x = sku_id_of sku0"
    using str_int_inj by metis
  from filter_same_key_distinct [OF assms this] show ?thesis .
next
  case False
  then have "filter (\<lambda>sku. str_int (sku_id_of sku) = s) sku_list = []"
    by (simp add: filter_empty_conv)
  then show ?thesis by simp
qed

subsection \<open>Evaluation of the example documents\<close>

lemma dbl_round_prices:
  "dbl_round 100 = Fin 100" "dbl_round 42 = Fin 42" "dbl_round 40 = Fin 40"
  "dbl_round 80 = Fin 80" "dbl_round 50 = Fin 50"
  by code_simp+

lemmas doc_eval =
  parse_product_detail_def env_of_def initial_color_def all_images_of_def find_logo_url_def
  logo_of_def str_opt_int_def
  first_truthy_def clean_title_def sanitize_brand_name_def collapse_spaces_def is_alnum_ascii_def
  given_def truthy_def ref_string_def classify_def has_one_size_category_def ONE_SIZE_CATEGORIES_def
  SIZE_NAMES_def COLOR_NAMES_def VALID_CLOTHING_SIZES_def upper_def any_digit_def
  process_sku_def process_size_def other_color_def resolve_size_def level_or_0_def sku_id_of_def
  normalize_size_def ONE_SIZE_def sku_price_def price_from_info_def price_from_detail_def
  select_price_info_def select_price_detail_def trade_type_or_0_def price_or_0_def is_fast_def
  price_raw_of_def div_100_def str_int_def str_nat.simps py_int_def
  document_def sized_sku_def bare_sku_def size_property_def tier_def
  example_variant_def example_result_def product_size_type_def possible_size_fields_def
  reference_color_def str_eval dbl_round_prices

lemma parse_shoe_document:
  "parse_product_detail None shoe_document None None =
     Inr (example_result [example_variant 1 (ascii ''42'') Shoes, example_variant 2 (ascii ''40'') Shoes])"
  by (simp add: doc_eval shoe_document_def)

lemma find_SomeD: "find P xs = Some x \<Longrightarrow> P x \<and> x \<in> set xs"
  by (induction xs) (auto split: if_splits)

lemma first_found_Some: "first_found Ps xs = Some x \<Longrightarrow> \<exists>P\<in>set Ps. P x"
  by (induction Ps) (auto split: option.splits dest: find_SomeD)

lemma parse_accessory_document_2:
  "parse_product_detail None accessory_document_2 (Some (ascii ''7'')) (Some [123]) =
     Inr (example_result [example_variant 7 ONE_SIZE Accessories])"
  by (simp add: doc_eval accessory_document_2_def fast_tier_2_def)

lemma accessory_document_2_type:
  "product_size_type accessory_document_2 (Some [123]) = Accessories"
  by (simp add: doc_eval accessory_document_2_def)

text \<open>
  C1 (as stated, refuted). The claim says that the variants of the returned record are
  ordered by size, ascending for shoes. The shoe document lists the SKU of size 42 before
  the SKU of size 40 and normalizes successfully; the record has the variants in that
  order, 42 before 40, although the sort key of 42 is the greater one. The code sorts a
  separate list of size labels, which it writes to the log only.
\<close>

theorem variants_order_counterexample:
  "parse_product_detail None shoe_document None None =
     Inr (example_result [example_variant 1 (ascii ''42'') Shoes, example_variant 2 (ascii ''40'') Shoes])
   \<and> safe_float_sort (ascii ''42'') = Fin 42 \<and> safe_float_sort (ascii ''40'') = Fin 40"
  using parse_shoe_document by (simp add: safe_float_sort_def str_eval dbl_round_prices)

text \<open>
  C1 (amended). For every raw document that normalizes successfully, the variants of the
  returned record are in the order in which their SKUs occur in the document (their SKU ids
  are a subsequence of the SKU ids of the document), for every size type, which is the
  same for all variants; the list is not sorted by size.
\<close>

theorem variants_in_sku_order:
  assumes "parse_product_detail price_formula product_data reference_sku_id category_ids = Inr r"
  shows "subseq (map v_sku_id (r_variants r)) (map sku_id_of (skus product_data))
         \<and> (\<forall>v\<in>set (r_variants r). v_size_type v = product_size_type product_data category_ids)"
proof -
  from parse_product_detail_variants [OF assms] obtain color0 where
    "sku_loop (env_of price_formula product_data reference_sku_id category_ids color0)
       (skus product_data) [] False = Some (r_variants r)" by blast
  from sku_loop_appends [OF this] show ?thesis by (auto simp: env_of_fields)
qed

theorem variants_in_sku_order_witness:
  "parse_product_detail None shoe_document None None =
     Inr (example_result [example_variant 1 (ascii ''42'') Shoes, example_variant 2 (ascii ''40'') Shoes])
   \<and> subseq [1, 2] (map sku_id_of (skus shoe_document))"
  using variants_in_sku_order [OF parse_shoe_document] parse_shoe_document
  by (simp add: example_result_def example_variant_def)

text \<open>
  C5 (the code at the failing input). The claim asks for the active price in both price
  paths. The same tier, with the price 100.00 and the active price 80.00, gives 80.0 in the
  path of \<open>priceInfo\<close> and 100.0 in the path of the SKU's own \<open>price.prices\<close>, which
  reads the field \<open>price\<close> only; a document whose only SKU has this tier normalizes to
  one variant with the price 100.0.
\<close>

theorem detail_path_ignores_active_price:
  "price_from_info [str_int 1 \<mapsto> [discounted_tier]] 1 = Emitted (Some (Fin 80, ascii ''priceInfo''))
   \<and> price_from_detail (sized_sku 1 11 [discounted_tier])
       = Emitted (Some (Fin 100, ascii ''price.prices[] (type=2)''))
   \<and> map_sum id (map v_price_cny \<circ> r_variants)
         (parse_product_detail None active_price_document None None) = Inr [Fin 100]"
  by (simp add: doc_eval active_price_document_def discounted_tier_def)

text \<open>
  C6 (as stated, refuted). The claim says that a tier of trade type 2 is selected whenever
  the list also holds a tier of trade type 8. When the delivery window of the tier of type
  2 is 10, both selections take the tier of type 8, and the variant gets its price 50.0.
\<close>

theorem slow_tier_2_counterexample:
  "select_price_info [slow_tier_2, tier_8] = Some tier_8
   \<and> select_price_detail [slow_tier_2, tier_8] = Some tier_8
   \<and> map_sum id (map v_price_cny \<circ> r_variants) (parse_product_detail None slow_document None None)
       = Inr [Fin 50]"
  by (simp add: doc_eval slow_document_def slow_tier_2_def tier_8_def)

text \<open>
  C6 (amended). For every price list that holds a tier of trade type 2 with a delivery
  window of at most 4, the first such tier is the one selected, in both price paths and
  whatever other tiers (of type 8 or any other) the list holds; a tier of trade type 2
  with a longer or an unknown delivery window is never selected.
\<close>

theorem fast_tier_2_selected:
  "(list_ex (\<lambda>p. trade_type_or_0 p = 2 \<and> is_fast p) prices_list \<longrightarrow>
      select_price_info prices_list = find (\<lambda>p. trade_type_or_0 p = 2 \<and> is_fast p) prices_list
      \<and> select_price_detail prices_list = find (\<lambda>p. trade_type_or_0 p = 2 \<and> is_fast p) prices_list)
   \<and> (\<forall>t. (select_price_info prices_list = Some t \<or> select_price_detail prices_list = Some t)
          \<longrightarrow> trade_type_or_0 t = 2 \<longrightarrow> is_fast t)"
proof (intro conjI impI allI)
  assume "list_ex (\<lambda>p. trade_type_or_0 p = 2 \<and> is_fast p) prices_list"
  then obtain x where x: "find (\<lambda>p. trade_type_or_0 p = 2 \<and> is_fast p) prices_list = Some x"
    by (cases "find (\<lambda>p. trade_type_or_0 p = 2 \<and> is_fast p) prices_list")
       (auto simp: find_None_iff list_ex_iff)
  then show "select_price_info prices_list = find (\<lambda>p. trade_type_or_0 p = 2 \<and> is_fast p) prices_list"
    and "select_price_detail prices_list = find (\<lambda>p. trade_type_or_0 p = 2 \<and> is_fast p) prices_list"
    by (simp_all add: select_price_info_def select_price_detail_def)
next
  fix t
  assume sel: "select_price_info prices_list = Some t \<or> select_price_detail prices_list = Some t"
    and t: "trade_type_or_0 t = 2"
  from sel show "is_fast t"
  proof
    assume "select_price_info prices_list = Some t"
    from first_found_Some [OF this [unfolded select_price_info_def]] t show ?thesis by auto
  next
    assume "select_price_detail prices_list = Some t"
    from first_found_Some [OF this [unfolded select_price_detail_def]] t show ?thesis
      by (auto simp: trade_type_or_0_def)
  qed
qed

theorem fast_tier_2_selected_witness:
  "list_ex (\<lambda>p. trade_type_or_0 p = 2 \<and> is_fast p) [tier_8, fast_tier_2]
   \<and> select_price_info [tier_8, fast_tier_2] = Some fast_tier_2
   \<and> select_price_detail [tier_8, fast_tier_2] = Some fast_tier_2"
  using fast_tier_2_selected [of "[tier_8, fast_tier_2]"]
  by (simp add: tier_8_def fast_tier_2_def tier_def trade_type_or_0_def is_fast_def)

text \<open>
  C10 (as stated, refuted). The claim says that an accessory normalized with a reference
  SKU id has at most one variant. In a document in which two SKUs carry the id 7, both
  pass the filter for the reference id 7, and the check for a second \<open>ONE SIZE\<close> variant
  is switched off when a reference id is given: the record has two variants.
\<close>

theorem duplicate_sku_counterexample:
  "product_size_type accessory_document (Some [123]) = Accessories
   \<and> map_sum id (map v_sku_id \<circ> r_variants)
        (parse_product_detail None accessory_document (Some (ascii ''7'')) (Some [123])) = Inr [7, 7]"
  by (simp add: doc_eval accessory_document_def fast_tier_2_def)

text \<open>
  C10 (amended). For every product classified as accessories for which a reference SKU id
  is given, every SKU whose id does not string-equal the reference id is skipped before the
  size is resolved, so every variant of the returned record has an id that string-equals
  the reference id, and the record has at most as many variants as the document has SKUs
  with that id: exactly one when the SKU ids of the document are distinct.
\<close>

theorem accessory_reference_filter:
  assumes "parse_product_detail price_formula product_data reference_sku_id category_ids = Inr r"
    and "given reference_sku_id"
    and "product_size_type product_data category_ids = Accessories"
  shows "(\<forall>v\<in>set (r_variants r). str_int (v_sku_id v) = ref_string reference_sku_id)
         \<and> length (r_variants r)
             \<le> length (filter (\<lambda>sku. str_int (sku_id_of sku) = ref_string reference_sku_id)
                         (skus product_data))
         \<and> (distinct (map sku_id_of (skus product_data)) \<longrightarrow> length (r_variants r) = 1)"
proof -
  let ?matching = "filter (\<lambda>sku. str_int (sku_id_of sku) = ref_string reference_sku_id)
                     (skus product_data)"
  from parse_product_detail_variants [OF assms(1)] obtain color0 where
    loop: "sku_loop (env_of price_formula product_data reference_sku_id category_ids color0)
             (skus product_data) [] False = Some (r_variants r)"
    and ne: "r_variants r \<noteq> []" by blast
  from sku_loop_reference [OF loop] assms(2,3)
  have sub: "subseq (map v_sku_id (r_variants r)) (map sku_id_of ?matching)"
    by (simp add: env_of_fields)
  have ids: "\<forall>v\<in>set (r_variants r). str_int (v_sku_id v) = ref_string reference_sku_id"
  proof
    fix v assume "v \<in> set (r_variants r)"
    then have "v_sku_id v \<in> set (map v_sku_id (r_variants r))" by simp
    from list_emb_set [OF sub this] have "v_sku_id v \<in> set (map sku_id_of ?matching)"
      by auto
    then show "str_int (v_sku_id v) = ref_string reference_sku_id" by auto
  qed
  from sub have len: "length (r_variants r) \<le> length ?matching"
    using list_emb_length [of "(=)" "map v_sku_id (r_variants r)" "map sku_id_of ?matching"] by simp
  have "distinct (map sku_id_of (skus product_data)) \<longrightarrow> length (r_variants r) = 1"
  proof
    assume "distinct (map sku_id_of (skus product_data))"
    from matching_skus_distinct [OF this, of "ref_string reference_sku_id"] len
    have "length (r_variants r) \<le> 1" by simp
    with ne show "length (r_variants r) = 1" by (cases "r_variants r") auto
  qed
  with ids len show ?thesis by blast
qed

theorem accessory_reference_filter_witness:
  "parse_product_detail None accessory_document_2 (Some (ascii ''7'')) (Some [123]) =
     Inr (example_result [example_variant 7 ONE_SIZE Accessories])
   \<and> given (Some (ascii ''7''))
   \<and> product_size_type accessory_document_2 (Some [123]) = Accessories
   \<and> str_int 7 = ref_string (Some (ascii ''7''))
   \<and> distinct (map sku_id_of (skus accessory_document_2))"
proof -
  have g: "given (Some (ascii ''7''))" by (simp add: given_def ascii_def)
  from accessory_reference_filter [OF parse_accessory_document_2 g accessory_document_2_type]
    parse_accessory_document_2 g accessory_document_2_type
  show ?thesis
    by (simp add: example_result_def example_variant_def accessory_document_2_def document_def
          bare_sku_def sku_id_of_def)
qed

end
